theory Spec2Isabelle
  imports Complex_Main "HOL-Library.Sublist"
begin

section \<open>The persisted schema (schema.prisma and its migration)\<close>

text \<open>
  The three tables of \<^verbatim>\<open>schema.prisma\<close>. Every row is a record; the fields carry
  the table's initial as a prefix (\<^verbatim>\<open>Produto.id\<close> is \<open>p_id\<close>) because the three
  models share the field name \<^verbatim>\<open>id\<close>. \<^verbatim>\<open>preco\<close> is a \<^verbatim>\<open>Float\<close> in the schema
  and is modelled by a real number: rounding of doubles is outside the model.
  \<^verbatim>\<open>estoque\<close> and \<^verbatim>\<open>quantidade\<close> are \<^verbatim>\<open>Int\<close> (a 32-bit \<^verbatim>\<open>INTEGER\<close>
  column in the migration): they are integers here and every write checks the range.
\<close>

record Produto =
  p_id :: string
  p_nome :: string
  p_preco :: real
  p_estoque :: int

record Carrinho =
  c_id :: string
  c_usuarioId :: string

record ItemCarrinho =
  i_id :: string
  i_quantidade :: int
  i_produtoId :: string
  i_carrinhoId :: string

text \<open>The database: one list of rows per table, in insertion order.\<close>

record banco =
  produtos :: "Produto list"
  carrinhos :: "Carrinho list"
  itens :: "ItemCarrinho list"

definition banco_vazio :: banco where
  "banco_vazio = \<lparr>produtos = [], carrinhos = [], itens = []\<rparr>"

text \<open>
  The failures of the store. \<open>UniqueConstraintFailed\<close> is a primary key or a
  \<^verbatim>\<open>@unique\<close>/\<^verbatim>\<open>@@unique\<close> index, \<open>ForeignKeyConstraintFailed\<close> is one of
  the two \<^verbatim>\<open>ON DELETE RESTRICT\<close> foreign keys of the migration,
  \<open>RecordNotFound\<close> is an update or delete whose \<^verbatim>\<open>where\<close> selects no row, and
  \<open>ValueOutOfRange\<close> is an integer that does not fit the \<^verbatim>\<open>INTEGER\<close> column.
  \<open>InconsistentQueryResult\<close> is an \<^verbatim>\<open>include\<close> of a required relation whose row
  is missing.
\<close>

datatype prisma_erro =
  UniqueConstraintFailed
  | ForeignKeyConstraintFailed
  | RecordNotFound
  | ValueOutOfRange
  | InconsistentQueryResult

definition int4 :: "int \<Rightarrow> bool" where
  "int4 v \<longleftrightarrow> - 2147483648 \<le> v \<and> v \<le> 2147483647"

subsection \<open>Produto\<close>

definition produto_findUnique_id :: "string \<Rightarrow> banco \<Rightarrow> Produto option" where
  "produto_findUnique_id pid db = find (\<lambda>p. p_id p = pid) (produtos db)"

definition produto_findUnique_nome :: "string \<Rightarrow> banco \<Rightarrow> Produto option" where
  "produto_findUnique_nome n db = find (\<lambda>p. p_nome p = n) (produtos db)"

definition produto_findMany :: "banco \<Rightarrow> Produto list" where
  "produto_findMany db = produtos db"

definition produto_create :: "Produto \<Rightarrow> banco \<Rightarrow> prisma_erro + Produto \<times> banco" where
  "produto_create p db =
     (if \<not> int4 (p_estoque p) then Inl ValueOutOfRange
      else if find (\<lambda>q. p_id q = p_id p \<or> p_nome q = p_nome p) (produtos db) \<noteq> None
        then Inl UniqueConstraintFailed
      else Inr (p, db\<lparr>produtos := produtos db @ [p]\<rparr>))"

text \<open>
  \<^verbatim>\<open>produto.update({where: {id}, data})\<close>: \<open>f\<close> is the effect of \<^verbatim>\<open>data\<close> on the
  row the store holds at the moment of the write (a set of fields, or an atomic
  \<^verbatim>\<open>increment\<close>/\<^verbatim>\<open>decrement\<close>).
\<close>

definition produto_update ::
  "string \<Rightarrow> (Produto \<Rightarrow> Produto) \<Rightarrow> banco \<Rightarrow> prisma_erro + Produto \<times> banco" where
  "produto_update pid f db =
     (case produto_findUnique_id pid db of
        None \<Rightarrow> Inl RecordNotFound
      | Some p \<Rightarrow>
          (let p' = f p in
           if \<not> int4 (p_estoque p') then Inl ValueOutOfRange
           else if find (\<lambda>q. p_id q \<noteq> pid \<and> p_nome q = p_nome p') (produtos db) \<noteq> None
             then Inl UniqueConstraintFailed
           else Inr (p', db\<lparr>produtos :=
                  map (\<lambda>q. if p_id q = pid then p' else q) (produtos db)\<rparr>)))"

text \<open>
  \<^verbatim>\<open>produto.delete({where: {id}})\<close>. The foreign key
  \<^verbatim>\<open>ItemCarrinho_produtoId_fkey ... ON DELETE RESTRICT\<close> refuses the delete while a
  cart line references the product.
\<close>

definition itemCarrinho_findFirst_produtoId :: "string \<Rightarrow> banco \<Rightarrow> ItemCarrinho option" where
  "itemCarrinho_findFirst_produtoId pid db = find (\<lambda>i. i_produtoId i = pid) (itens db)"

definition produto_delete :: "string \<Rightarrow> banco \<Rightarrow> prisma_erro + Produto \<times> banco" where
  "produto_delete pid db =
     (case produto_findUnique_id pid db of
        None \<Rightarrow> Inl RecordNotFound
      | Some p \<Rightarrow>
          if itemCarrinho_findFirst_produtoId pid db \<noteq> None
            then Inl ForeignKeyConstraintFailed
          else Inr (p, db\<lparr>produtos := filter (\<lambda>q. p_id q \<noteq> pid) (produtos db)\<rparr>))"

subsection \<open>Carrinho, with its lines and their products included\<close>

text \<open>
  The result of a query with \<^verbatim>\<open>include: {itens: {include: {produto: true}}}\<close>:
  the cart and, for each of its lines, the line and its product.
\<close>

record CarrinhoComItens =
  ci_id :: string
  ci_usuarioId :: string
  ci_itens :: "(ItemCarrinho \<times> Produto) list"

fun incluir_produto :: "banco \<Rightarrow> ItemCarrinho list \<Rightarrow> (ItemCarrinho \<times> Produto) list option" where
  "incluir_produto db [] = Some []"
| "incluir_produto db (i # is) =
     (case produto_findUnique_id (i_produtoId i) db of
        None \<Rightarrow> None
      | Some p \<Rightarrow> map_option (\<lambda>r. (i, p) # r) (incluir_produto db is))"

definition itens_do_carrinho :: "string \<Rightarrow> banco \<Rightarrow> ItemCarrinho list" where
  "itens_do_carrinho cid db = filter (\<lambda>i. i_carrinhoId i = cid) (itens db)"

definition carrinho_include :: "Carrinho \<Rightarrow> banco \<Rightarrow> prisma_erro + CarrinhoComItens" where
  "carrinho_include c db =
     (case incluir_produto db (itens_do_carrinho (c_id c) db) of
        None \<Rightarrow> Inl InconsistentQueryResult
      | Some l \<Rightarrow> Inr \<lparr>ci_id = c_id c, ci_usuarioId = c_usuarioId c, ci_itens = l\<rparr>)"

definition carrinho_findUnique_usuarioId :: "string \<Rightarrow> banco \<Rightarrow> Carrinho option" where
  "carrinho_findUnique_usuarioId u db = find (\<lambda>c. c_usuarioId c = u) (carrinhos db)"

definition carrinho_findUnique_id :: "string \<Rightarrow> banco \<Rightarrow> Carrinho option" where
  "carrinho_findUnique_id cid db = find (\<lambda>c. c_id c = cid) (carrinhos db)"

definition carrinho_create :: "Carrinho \<Rightarrow> banco \<Rightarrow> prisma_erro + Carrinho \<times> banco" where
  "carrinho_create c db =
     (if find (\<lambda>d. c_id d = c_id c \<or> c_usuarioId d = c_usuarioId c) (carrinhos db) \<noteq> None
        then Inl UniqueConstraintFailed
      else Inr (c, db\<lparr>carrinhos := carrinhos db @ [c]\<rparr>))"

text \<open>
  \<^verbatim>\<open>carrinho.update({where: {id}, data: {itens: {upsert: ...}}, include})\<close>: the line
  keyed by \<^verbatim>\<open>produtoId_carrinhoId\<close> gets \<^verbatim>\<open>quantidade\<close> incremented by \<open>q\<close> when
  it exists, and is created with \<open>q\<close> (and the generated id \<open>uuid\<close>) when it does not.
\<close>

definition carrinho_update_upsert ::
  "string \<Rightarrow> string \<Rightarrow> int \<Rightarrow> string \<Rightarrow> banco \<Rightarrow> prisma_erro + CarrinhoComItens \<times> banco" where
  "carrinho_update_upsert cid pid q uuid db =
     (case carrinho_findUnique_id cid db of
        None \<Rightarrow> Inl RecordNotFound
      | Some c \<Rightarrow>
          (case find (\<lambda>i. i_produtoId i = pid \<and> i_carrinhoId i = cid) (itens db) of
             Some i \<Rightarrow>
               if \<not> int4 (i_quantidade i + q) then Inl ValueOutOfRange
               else
                 (let db' = db\<lparr>itens :=
                        map (\<lambda>j. if i_produtoId j = pid \<and> i_carrinhoId j = cid
                                  then j\<lparr>i_quantidade := i_quantidade j + q\<rparr> else j)
                          (itens db)\<rparr>
                  in case carrinho_include c db' of
                       Inl e \<Rightarrow> Inl e
                     | Inr r \<Rightarrow> Inr (r, db'))
           | None \<Rightarrow>
               if \<not> int4 q then Inl ValueOutOfRange
               else if find (\<lambda>j. i_id j = uuid) (itens db) \<noteq> None
                 then Inl UniqueConstraintFailed
               else if produto_findUnique_id pid db = None
                 then Inl ForeignKeyConstraintFailed
               else
                 (let db' = db\<lparr>itens := itens db @
                        [\<lparr>i_id = uuid, i_quantidade = q, i_produtoId = pid,
                          i_carrinhoId = cid\<rparr>]\<rparr>
                  in case carrinho_include c db' of
                       Inl e \<Rightarrow> Inl e
                     | Inr r \<Rightarrow> Inr (r, db'))))"

text \<open>
  \<^verbatim>\<open>carrinho.update({where: {id}, data: {itens: {delete: {id: itemId}}}, include})\<close>:
  the line must exist and belong to the cart.
\<close>

definition carrinho_update_delete ::
  "string \<Rightarrow> string \<Rightarrow> banco \<Rightarrow> prisma_erro + CarrinhoComItens \<times> banco" where
  "carrinho_update_delete cid iid db =
     (case carrinho_findUnique_id cid db of
        None \<Rightarrow> Inl RecordNotFound
      | Some c \<Rightarrow>
          if find (\<lambda>i. i_id i = iid \<and> i_carrinhoId i = cid) (itens db) = None
            then Inl RecordNotFound
          else
            (let db' = db\<lparr>itens := filter (\<lambda>i. i_id i \<noteq> iid) (itens db)\<rparr>
             in case carrinho_include c db' of
                  Inl e \<Rightarrow> Inl e
                | Inr r \<Rightarrow> Inr (r, db')))"

text \<open>
  \<^verbatim>\<open>prisma.$transaction([a, b])\<close>: the two writes in order, all or nothing. A
  failure returns no database, so the caller keeps the one it had.
\<close>

definition transaction ::
  "(banco \<Rightarrow> prisma_erro + 'a \<times> banco) \<Rightarrow> (banco \<Rightarrow> prisma_erro + 'b \<times> banco) \<Rightarrow>
   banco \<Rightarrow> prisma_erro + ('a \<times> 'b) \<times> banco" where
  "transaction a b db =
     (case a db of
        Inl e \<Rightarrow> Inl e
      | Inr (x, db1) \<Rightarrow>
          (case b db1 of
             Inl e \<Rightarrow> Inl e
           | Inr (y, db2) \<Rightarrow> Inr ((x, y), db2)))"

section \<open>The controller (app.controller.ts)\<close>

subsection \<open>Exceptions and messages\<close>

text \<open>
  The three HTTP exceptions the controller throws, with their messages, the
  \<^verbatim>\<open>BadRequestException\<close> of the validation pipe (\<open>ValidationFailed\<close>), and a
  failure of the store, which the controller never catches.
\<close>

datatype erro =
  NotFoundException string
  | BadRequestException string
  | ConflictException string
  | ValidationFailed
  | PrismaErro prisma_erro

text \<open>
  The messages are Portuguese; their accented letters are written as the bytes of
  their UTF-8 encoding.
\<close>

definition a_agudo :: string where "a_agudo = [CHR 0xC3, CHR 0xA1]"
definition a_til :: string where "a_til = [CHR 0xC3, CHR 0xA3]"
definition c_cedilha :: string where "c_cedilha = [CHR 0xC3, CHR 0xA7]"
definition i_agudo :: string where "i_agudo = [CHR 0xC3, CHR 0xAD]"
definition aspas :: string where "aspas = [CHR 0x22]"

text \<open>The decimal text of an integer, as a template literal prints it.\<close>

function string_of_nat :: "nat \<Rightarrow> string" where
  "string_of_nat n =
     (if n < 10 then [''0123456789'' ! n]
      else string_of_nat (n div 10) @ [''0123456789'' ! (n mod 10)])"
  by pat_completeness auto
termination
  by (relation "measure (\<lambda>n. n)") auto

declare string_of_nat.simps [simp del]

definition string_of_int :: "int \<Rightarrow> string" where
  "string_of_int v =
     (if v < 0 then ''-'' @ string_of_nat (nat (- v)) else string_of_nat (nat v))"

definition msg_produto_nao_encontrado :: "string \<Rightarrow> string" where
  "msg_produto_nao_encontrado pid =
     ''Produto com ID '' @ pid @ '' n'' @ a_til @ ''o encontrado.''"

definition msg_estoque_insuficiente :: "Produto \<Rightarrow> string" where
  "msg_estoque_insuficiente p =
     ''Estoque insuficiente para '' @ aspas @ p_nome p @ aspas @ ''. Dispon'' @ i_agudo
       @ ''vel: '' @ string_of_int (p_estoque p) @ ''.''"

definition msg_nao_esta_no_carrinho :: "string \<Rightarrow> string" where
  "msg_nao_esta_no_carrinho pid =
     ''Produto com ID '' @ pid @ '' n'' @ a_til @ ''o est'' @ a_agudo @ '' no carrinho.''"

definition msg_nome_existente :: string where
  "msg_nome_existente = ''J'' @ a_agudo @ '' existe um produto com este nome.''"

definition msg_sem_campos :: string where
  "msg_sem_campos =
     ''Pelo menos um campo deve ser fornecido para atualiza'' @ c_cedilha @ a_til @ ''o.''"

subsection \<open>The DTOs and their validation decorators\<close>

record CriarProdutoDto =
  cp_nome :: string
  cp_preco :: real
  cp_estoque :: int

text \<open>An optional field of the DTO is \<open>None\<close> when the body does not supply it.\<close>

record AtualizarProdutoDto =
  ap_nome :: "string option"
  ap_preco :: "real option"
  ap_estoque :: "int option"

record AdicionarItemDto =
  ai_produtoId :: string
  ai_quantidade :: int

text \<open>
  The decorators of each DTO: \<^verbatim>\<open>@IsNotEmpty()\<close>, \<^verbatim>\<open>@Min(0.01)\<close>, \<^verbatim>\<open>@Min(0)\<close>,
  \<^verbatim>\<open>@Min(1)\<close>, and \<^verbatim>\<open>@IsOptional()\<close>, which skips the checks of a field that
  is not supplied. \<^verbatim>\<open>@IsString()\<close> and \<^verbatim>\<open>@IsNumber()\<close> hold by the types.
\<close>

definition validar_CriarProdutoDto :: "CriarProdutoDto \<Rightarrow> bool" where
  "validar_CriarProdutoDto d \<longleftrightarrow> cp_nome d \<noteq> [] \<and> 1 / 100 \<le> cp_preco d \<and> 0 \<le> cp_estoque d"

definition validar_AtualizarProdutoDto :: "AtualizarProdutoDto \<Rightarrow> bool" where
  "validar_AtualizarProdutoDto d \<longleftrightarrow>
     (case ap_nome d of None \<Rightarrow> True | Some n \<Rightarrow> n \<noteq> []) \<and>
     (case ap_preco d of None \<Rightarrow> True | Some v \<Rightarrow> 1 / 100 \<le> v) \<and>
     (case ap_estoque d of None \<Rightarrow> True | Some e \<Rightarrow> 0 \<le> e)"

definition validar_AdicionarItemDto :: "AdicionarItemDto \<Rightarrow> bool" where
  "validar_AdicionarItemDto d \<longleftrightarrow> ai_produtoId d \<noteq> [] \<and> 1 \<le> ai_quantidade d"

subsection \<open>Products\<close>

definition msg_produto_criado :: string where
  "msg_produto_criado = ''Produto criado com sucesso!''"

definition msg_produto_atualizado :: string where
  "msg_produto_atualizado = ''Produto atualizado!''"

definition msg_item_adicionado :: string where
  "msg_item_adicionado = ''Item adicionado ao carrinho!''"

definition msg_item_removido :: string where
  "msg_item_removido = ''Item removido do carrinho!''"

text \<open>
  Every handler takes the database and returns its response, or the exception it
  throws, with the database it leaves. \<open>uuid\<close> is the value \<^verbatim>\<open>@default(uuid())\<close>
  generates for the row the handler may create.
\<close>

definition criarProduto ::
  "string \<Rightarrow> CriarProdutoDto \<Rightarrow> banco \<Rightarrow> (erro + string \<times> Produto) \<times> banco" where
  "criarProduto uuid dadosDoProduto db =
     (case produto_findUnique_nome (cp_nome dadosDoProduto) db of
        Some produtoExistente \<Rightarrow> (Inl (ConflictException msg_nome_existente), db)
      | None \<Rightarrow>
          (case produto_create
                  \<lparr>p_id = uuid, p_nome = cp_nome dadosDoProduto,
                    p_preco = cp_preco dadosDoProduto,
                    p_estoque = cp_estoque dadosDoProduto\<rparr> db of
             Inl e \<Rightarrow> (Inl (PrismaErro e), db)
           | Inr (produto, db') \<Rightarrow> (Inr (msg_produto_criado, produto), db')))"

definition listarTodos :: "banco \<Rightarrow> Produto list" where
  "listarTodos db = produto_findMany db"

definition buscarProdutoPorId :: "string \<Rightarrow> banco \<Rightarrow> erro + Produto" where
  "buscarProdutoPorId pid db =
     (case produto_findUnique_id pid db of
        None \<Rightarrow> Inl (NotFoundException (msg_produto_nao_encontrado pid))
      | Some produto \<Rightarrow> Inr produto)"

text \<open>\<^verbatim>\<open>Object.keys(dadosParaAtualizar)\<close>: the fields the body supplies.\<close>

definition chaves :: "AtualizarProdutoDto \<Rightarrow> string list" where
  "chaves d =
     (case ap_nome d of None \<Rightarrow> [] | Some _ \<Rightarrow> [''nome'']) @
     (case ap_preco d of None \<Rightarrow> [] | Some _ \<Rightarrow> [''preco'']) @
     (case ap_estoque d of None \<Rightarrow> [] | Some _ \<Rightarrow> [''estoque''])"

text \<open>The effect of \<^verbatim>\<open>data: dadosParaAtualizar\<close> on a row: the supplied fields.\<close>

definition aplicar :: "AtualizarProdutoDto \<Rightarrow> Produto \<Rightarrow> Produto" where
  "aplicar d p =
     p\<lparr>p_nome := (case ap_nome d of None \<Rightarrow> p_nome p | Some n \<Rightarrow> n),
       p_preco := (case ap_preco d of None \<Rightarrow> p_preco p | Some v \<Rightarrow> v),
       p_estoque := (case ap_estoque d of None \<Rightarrow> p_estoque p | Some e \<Rightarrow> e)\<rparr>"

definition atualizarProduto ::
  "string \<Rightarrow> AtualizarProdutoDto \<Rightarrow> banco \<Rightarrow> (erro + string \<times> Produto) \<times> banco" where
  "atualizarProduto pid dadosParaAtualizar db =
     (case buscarProdutoPorId pid db of
        Inl e \<Rightarrow> (Inl e, db)
      | Inr _ \<Rightarrow>
          if length (chaves dadosParaAtualizar) = 0
            then (Inl (BadRequestException msg_sem_campos), db)
          else
            (case produto_update pid (aplicar dadosParaAtualizar) db of
               Inl e \<Rightarrow> (Inl (PrismaErro e), db)
             | Inr (produtoAtualizado, db') \<Rightarrow>
                 (Inr (msg_produto_atualizado, produtoAtualizado), db')))"

definition removerProduto :: "string \<Rightarrow> banco \<Rightarrow> (erro + unit) \<times> banco" where
  "removerProduto pid db =
     (case buscarProdutoPorId pid db of
        Inl e \<Rightarrow> (Inl e, db)
      | Inr _ \<Rightarrow>
          (case produto_delete pid db of
             Inl e \<Rightarrow> (Inl (PrismaErro e), db)
           | Inr (_, db') \<Rightarrow> (Inr (), db')))"

subsection \<open>The cart\<close>

definition usuarioId :: string where
  "usuarioId = ''usuario-123''"

definition obterOuCriarCarrinho :: "string \<Rightarrow> banco \<Rightarrow> (erro + CarrinhoComItens) \<times> banco" where
  "obterOuCriarCarrinho uuid db =
     (case carrinho_findUnique_usuarioId usuarioId db of
        Some c \<Rightarrow>
          (case carrinho_include c db of
             Inl e \<Rightarrow> (Inl (PrismaErro e), db)
           | Inr carrinho \<Rightarrow> (Inr carrinho, db))
      | None \<Rightarrow>
          (case carrinho_create \<lparr>c_id = uuid, c_usuarioId = usuarioId\<rparr> db of
             Inl e \<Rightarrow> (Inl (PrismaErro e), db)
           | Inr (c, db') \<Rightarrow>
               (case carrinho_include c db' of
                  Inl e \<Rightarrow> (Inl (PrismaErro e), db')
                | Inr carrinho \<Rightarrow> (Inr carrinho, db'))))"

record ItemFormatado =
  f_produtoId :: string
  f_nome :: string
  f_quantidade :: int
  f_precoUnitario :: real
  f_totalItem :: real

record CarrinhoFormatado =
  cf_id :: string
  cf_usuarioId :: string
  cf_itens :: "ItemFormatado list"
  cf_total :: real

definition formatarItem :: "ItemCarrinho \<times> Produto \<Rightarrow> ItemFormatado" where
  "formatarItem ip =
     (case ip of (i, produto) \<Rightarrow>
        \<lparr>f_produtoId = i_produtoId i, f_nome = p_nome produto,
          f_quantidade = i_quantidade i, f_precoUnitario = p_preco produto,
          f_totalItem = of_int (i_quantidade i) * p_preco produto\<rparr>)"

text \<open>\<^verbatim>\<open>reduce\<close> is a fold from the left, starting at \<open>0\<close>.\<close>

definition formatarCarrinho :: "CarrinhoComItens \<Rightarrow> CarrinhoFormatado" where
  "formatarCarrinho carrinho =
     (let total = foldl (\<lambda>acc item. acc + of_int (i_quantidade (fst item)) * p_preco (snd item))
                    0 (ci_itens carrinho)
      in \<lparr>cf_id = ci_id carrinho, cf_usuarioId = ci_usuarioId carrinho,
           cf_itens = map formatarItem (ci_itens carrinho), cf_total = total\<rparr>)"

text \<open>
  \<^verbatim>\<open>adicionarItem\<close> awaits the store four times. Its first part resolves the cart,
  loads the product and checks the stock it read; its second part is the
  \<^verbatim>\<open>$transaction\<close> with the atomic decrement and the upsert of the line. The
  handler is the first part followed by the second.
\<close>

definition adicionarItem_verificar ::
  "string \<Rightarrow> AdicionarItemDto \<Rightarrow> banco \<Rightarrow> (erro + CarrinhoComItens) \<times> banco" where
  "adicionarItem_verificar uuidCarrinho itemDto db =
     (case obterOuCriarCarrinho uuidCarrinho db of
        (Inl e, db1) \<Rightarrow> (Inl e, db1)
      | (Inr carrinho, db1) \<Rightarrow>
          (case produto_findUnique_id (ai_produtoId itemDto) db1 of
             None \<Rightarrow>
               (Inl (NotFoundException (msg_produto_nao_encontrado (ai_produtoId itemDto))), db1)
           | Some produto \<Rightarrow>
               if p_estoque produto < ai_quantidade itemDto
                 then (Inl (BadRequestException (msg_estoque_insuficiente produto)), db1)
               else (Inr carrinho, db1)))"

definition adicionarItem_transacao ::
  "string \<Rightarrow> CarrinhoComItens \<Rightarrow> AdicionarItemDto \<Rightarrow> banco \<Rightarrow>
   (erro + string \<times> CarrinhoFormatado) \<times> banco" where
  "adicionarItem_transacao uuidItem carrinho itemDto db =
     (case transaction
             (produto_update (ai_produtoId itemDto)
                (\<lambda>p. p\<lparr>p_estoque := p_estoque p - ai_quantidade itemDto\<rparr>))
             (carrinho_update_upsert (ci_id carrinho) (ai_produtoId itemDto)
                (ai_quantidade itemDto) uuidItem) db of
        Inl e \<Rightarrow> (Inl (PrismaErro e), db)
      | Inr ((_, carrinhoAtualizado), db') \<Rightarrow>
          (Inr (msg_item_adicionado, formatarCarrinho carrinhoAtualizado), db'))"

definition adicionarItem ::
  "string \<Rightarrow> string \<Rightarrow> AdicionarItemDto \<Rightarrow> banco \<Rightarrow>
   (erro + string \<times> CarrinhoFormatado) \<times> banco" where
  "adicionarItem uuidCarrinho uuidItem itemDto db =
     (case adicionarItem_verificar uuidCarrinho itemDto db of
        (Inl e, db1) \<Rightarrow> (Inl e, db1)
      | (Inr carrinho, db1) \<Rightarrow> adicionarItem_transacao uuidItem carrinho itemDto db1)"

definition verCarrinho :: "string \<Rightarrow> banco \<Rightarrow> (erro + CarrinhoFormatado) \<times> banco" where
  "verCarrinho uuidCarrinho db =
     (case obterOuCriarCarrinho uuidCarrinho db of
        (Inl e, db1) \<Rightarrow> (Inl e, db1)
      | (Inr carrinho, db1) \<Rightarrow> (Inr (formatarCarrinho carrinho), db1))"

definition removerItem ::
  "string \<Rightarrow> string \<Rightarrow> banco \<Rightarrow> (erro + string \<times> CarrinhoFormatado) \<times> banco" where
  "removerItem uuidCarrinho produtoId db =
     (case obterOuCriarCarrinho uuidCarrinho db of
        (Inl e, db1) \<Rightarrow> (Inl e, db1)
      | (Inr carrinho, db1) \<Rightarrow>
          (case find (\<lambda>i. i_produtoId (fst i) = produtoId) (ci_itens carrinho) of
             None \<Rightarrow> (Inl (NotFoundException (msg_nao_esta_no_carrinho produtoId)), db1)
           | Some itemNoCarrinho \<Rightarrow>
               (case transaction
                       (produto_update produtoId
                          (\<lambda>p. p\<lparr>p_estoque := p_estoque p + i_quantidade (fst itemNoCarrinho)\<rparr>))
                       (carrinho_update_delete (ci_id carrinho) (i_id (fst itemNoCarrinho)))
                       db1 of
                  Inl e \<Rightarrow> (Inl (PrismaErro e), db1)
                | Inr ((_, carrinhoAtualizado), db2) \<Rightarrow>
                    (Inr (msg_item_removido, formatarCarrinho carrinhoAtualizado), db2))))"

subsection \<open>Requests\<close>

text \<open>
  Modelled from the spec: the validation pipe that runs a DTO's decorators before
  the handler receives the body. Its registration is not among the sources (the
  application module is missing, and the bootstrap in \<^verbatim>\<open>main.ts\<close> registers none);
  the spec (4.1, 6 and 7) has a body with an invalid field fail with
  \<^verbatim>\<open>InvalidInput\<close> (status 400). A route with a body is its DTO's validation
  followed by the handler.
\<close>

definition post_produtos ::
  "string \<Rightarrow> CriarProdutoDto \<Rightarrow> banco \<Rightarrow> (erro + string \<times> Produto) \<times> banco" where
  "post_produtos uuid d db =
     (if validar_CriarProdutoDto d then criarProduto uuid d db else (Inl ValidationFailed, db))"

definition put_produtos ::
  "string \<Rightarrow> AtualizarProdutoDto \<Rightarrow> banco \<Rightarrow> (erro + string \<times> Produto) \<times> banco" where
  "put_produtos pid d db =
     (if validar_AtualizarProdutoDto d then atualizarProduto pid d db
      else (Inl ValidationFailed, db))"

definition post_carrinho_adicionar ::
  "string \<Rightarrow> string \<Rightarrow> AdicionarItemDto \<Rightarrow> banco \<Rightarrow>
   (erro + string \<times> CarrinhoFormatado) \<times> banco" where
  "post_carrinho_adicionar uuidCarrinho uuidItem d db =
     (if validar_AdicionarItemDto d then adicionarItem uuidCarrinho uuidItem d db
      else (Inl ValidationFailed, db))"

text \<open>
  The requests of the HTTP surface, each with the identifiers the store would
  generate while serving it, and the database a request leaves.
\<close>

datatype requisicao =
  CriarProduto string CriarProdutoDto
  | ListarTodos
  | BuscarProdutoPorId string
  | AtualizarProduto string AtualizarProdutoDto
  | RemoverProduto string
  | AdicionarItem string string AdicionarItemDto
  | VerCarrinho string
  | RemoverItem string string

fun executar :: "requisicao \<Rightarrow> banco \<Rightarrow> banco" where
  "executar (CriarProduto uuid d) db = snd (post_produtos uuid d db)"
| "executar ListarTodos db = db"
| "executar (BuscarProdutoPorId pid) db = db"
| "executar (AtualizarProduto pid d) db = snd (put_produtos pid d db)"
| "executar (RemoverProduto pid) db = snd (removerProduto pid db)"
| "executar (AdicionarItem uuidCarrinho uuidItem d) db =
     snd (post_carrinho_adicionar uuidCarrinho uuidItem d db)"
| "executar (VerCarrinho uuidCarrinho) db = snd (verCarrinho uuidCarrinho db)"
| "executar (RemoverItem uuidCarrinho pid) db = snd (removerItem uuidCarrinho pid db)"

fun executar_todas :: "requisicao list \<Rightarrow> banco \<Rightarrow> banco" where
  "executar_todas [] db = db"
| "executar_todas (r # rs) db = executar_todas rs (executar r db)"

section \<open>Properties of the database\<close>

text \<open>
  The constraints of the schema: the three primary keys, the unique indexes on
  \<^verbatim>\<open>Produto.nome\<close>, \<^verbatim>\<open>Carrinho.usuarioId\<close> and
  \<^verbatim>\<open>ItemCarrinho(produtoId, carrinhoId)\<close>, the two foreign keys, and the range
  of the two \<^verbatim>\<open>INTEGER\<close> columns.
\<close>

definition chave :: "ItemCarrinho \<Rightarrow> string \<times> string" where
  "chave i = (i_produtoId i, i_carrinhoId i)"

definition esquema_ok :: "banco \<Rightarrow> bool" where
  "esquema_ok db \<longleftrightarrow>
     distinct (map p_id (produtos db)) \<and>
     distinct (map p_nome (produtos db)) \<and>
     distinct (map c_id (carrinhos db)) \<and>
     distinct (map c_usuarioId (carrinhos db)) \<and>
     distinct (map i_id (itens db)) \<and>
     distinct (map chave (itens db)) \<and>
     list_all (\<lambda>i. produto_findUnique_id (i_produtoId i) db \<noteq> None \<and>
                   carrinho_findUnique_id (i_carrinhoId i) db \<noteq> None) (itens db) \<and>
     list_all (\<lambda>p. int4 (p_estoque p)) (produtos db) \<and>
     list_all (\<lambda>i. int4 (i_quantidade i)) (itens db)"


definition estoque_de :: "string \<Rightarrow> banco \<Rightarrow> int option" where
  "estoque_de pid db = map_option p_estoque (produto_findUnique_id pid db)"


text \<open>The line the owner's cart holds for a product, if the cart exists and has one.\<close>

definition linha_do_carrinho :: "string \<Rightarrow> banco \<Rightarrow> ItemCarrinho option" where
  "linha_do_carrinho pid db =
     (case carrinho_findUnique_usuarioId usuarioId db of
        None \<Rightarrow> None
      | Some c \<Rightarrow> find (\<lambda>i. i_produtoId i = pid \<and> i_carrinhoId i = c_id c) (itens db))"





section \<open>Two requests in flight\<close>

text \<open>
  Two \<^verbatim>\<open>adicionarItem\<close> calls A and B served at the same time, in the schedule
  where both finish their first part (the reads and the stock check) before
  either runs its transaction: A's check, B's check, A's transaction, B's
  transaction. Every step is one part of the handler as defined above.
\<close>

definition intercalar_adicionarItem ::
  "string \<Rightarrow> string \<Rightarrow> AdicionarItemDto \<Rightarrow> string \<Rightarrow> string \<Rightarrow> AdicionarItemDto \<Rightarrow> banco \<Rightarrow>
   ((erro + string \<times> CarrinhoFormatado) \<times> (erro + string \<times> CarrinhoFormatado)) \<times> banco" where
  "intercalar_adicionarItem uuidCarrinhoA uuidItemA dtoA uuidCarrinhoB uuidItemB dtoB db =
     (case adicionarItem_verificar uuidCarrinhoA dtoA db of
        (vA, db1) \<Rightarrow>
          (case adicionarItem_verificar uuidCarrinhoB dtoB db1 of
             (vB, db2) \<Rightarrow>
               (case (case vA of Inl e \<Rightarrow> (Inl e, db2)
                      | Inr carrinho \<Rightarrow> adicionarItem_transacao uuidItemA carrinho dtoA db2) of
                  (rA, db3) \<Rightarrow>
                    (case (case vB of Inl e \<Rightarrow> (Inl e, db3)
                           | Inr carrinho \<Rightarrow> adicionarItem_transacao uuidItemB carrinho dtoB db3) of
                       (rB, db4) \<Rightarrow> ((rA, rB), db4)))))"

section \<open>Example data\<close>

text \<open>The product of the spec's scenarios: a Widget at 10.00 with 5 units in stock.\<close>

definition widget :: Produto where
  "widget = \<lparr>p_id = ''p1'', p_nome = ''Widget'', p_preco = 10, p_estoque = 5\<rparr>"

definition carrinho_c1 :: Carrinho where
  "carrinho_c1 = \<lparr>c_id = ''c1'', c_usuarioId = ''usuario-123''\<rparr>"

definition banco_widget :: banco where
  "banco_widget = \<lparr>produtos = [widget], carrinhos = [carrinho_c1], itens = []\<rparr>"

definition tres :: AdicionarItemDto where
  "tres = \<lparr>ai_produtoId = ''p1'', ai_quantidade = 3\<rparr>"

text \<open>The same database after 3 units of the Widget went into the cart.\<close>

definition banco_reservado :: banco where
  "banco_reservado =
     \<lparr>produtos = [\<lparr>p_id = ''p1'', p_nome = ''Widget'', p_preco = 10, p_estoque = 2\<rparr>],
      carrinhos = [carrinho_c1],
      itens = [\<lparr>i_id = ''i1'', i_quantidade = 3, i_produtoId = ''p1'',
                i_carrinhoId = ''c1''\<rparr>]\<rparr>"









section \<open>Lists and the store\<close>

lemma find_Some_set: "find P xs = Some x \<Longrightarrow> x \<in> set xs \<and> P x"
  by (induction xs) (auto split: if_splits)

lemma find_key_None: "find (\<lambda>x. f x = k) xs = None \<longleftrightarrow> k \<notin> f ` set xs"
  by (induction xs) auto

lemma find_distinct_key:
  "distinct (map f xs) \<Longrightarrow> x \<in> set xs \<Longrightarrow> find (\<lambda>y. f y = f x) xs = Some x"
  by (induction xs) (auto simp: image_iff)

lemma map_key_replace:
  "f p' = k \<Longrightarrow> map f (map (\<lambda>q. if f q = k then p' else q) xs) = map f xs"
  by (induction xs) auto

lemma replace_absent:
  "(\<And>x. x \<in> set xs \<Longrightarrow> f x \<noteq> k) \<Longrightarrow> map (\<lambda>q. if f q = k then p else q) xs = xs"
  by (induction xs) auto

lemma replace_same:
  "distinct (map f xs) \<Longrightarrow> find (\<lambda>y. f y = k) xs = Some p \<Longrightarrow>
   map (\<lambda>q. if f q = k then p else q) xs = xs"
  by (induction xs) (auto split: if_splits simp: image_iff intro!: replace_absent)

lemma replace_twice:
  "f p' = k \<Longrightarrow> map (\<lambda>q. if f q = k then p'' else q) (map (\<lambda>q. if f q = k then p' else q) xs)
     = map (\<lambda>q. if f q = k then p'' else q) xs"
  by (induction xs) auto

lemma find_replace:
  "find (\<lambda>y. f y = k) xs = Some p \<Longrightarrow> f p' = k \<Longrightarrow>
   find (\<lambda>y. f y = k) (map (\<lambda>q. if f q = k then p' else q) xs) = Some p'"
  by (induction xs) (auto split: if_splits)




lemma incluir_produto_Some:
  "list_all (\<lambda>i. produto_findUnique_id (i_produtoId i) db \<noteq> None) is \<Longrightarrow>
   incluir_produto db is = Some (map (\<lambda>i. (i, the (produto_findUnique_id (i_produtoId i) db))) is)"
  by (induction "is") (auto split: option.splits)


lemma esquema_ok_iff:
  "esquema_ok db \<longleftrightarrow>
     distinct (map p_id (produtos db)) \<and> distinct (map p_nome (produtos db)) \<and>
     distinct (map c_id (carrinhos db)) \<and> distinct (map c_usuarioId (carrinhos db)) \<and>
     distinct (map i_id (itens db)) \<and> distinct (map chave (itens db)) \<and>
     (\<forall>i\<in>set (itens db). i_produtoId i \<in> p_id ` set (produtos db) \<and>
                          i_carrinhoId i \<in> c_id ` set (carrinhos db) \<and> int4 (i_quantidade i)) \<and>
     (\<forall>p\<in>set (produtos db). int4 (p_estoque p))"
  by (auto simp: esquema_ok_def list_all_iff produto_findUnique_id_def carrinho_findUnique_id_def
      find_key_None)

lemma produto_update_Inr:
  "produto_update pid f db = Inr (p', db') \<Longrightarrow>
   \<exists>p. produto_findUnique_id pid db = Some p \<and> p' = f p \<and> int4 (p_estoque p') \<and>
       find (\<lambda>q. p_id q \<noteq> pid \<and> p_nome q = p_nome p') (produtos db) = None \<and>
       db' = db\<lparr>produtos := map (\<lambda>q. if p_id q = pid then p' else q) (produtos db)\<rparr>"
  by (auto simp: produto_update_def Let_def split: option.splits if_splits)

lemma distinct_nome_replace:
  "distinct (map p_nome xs) \<Longrightarrow> \<forall>q\<in>set xs. p_id q \<noteq> pid \<longrightarrow> p_nome q \<noteq> p_nome p' \<Longrightarrow>
   distinct (map p_id xs) \<Longrightarrow>
   distinct (map p_nome (map (\<lambda>q. if p_id q = pid then p' else q) xs))"
proof (induction xs)
  case Nil
  then show ?case by simp
next
  case (Cons x xs)
  show ?case
  proof (cases "p_id x = pid")
    case True
    with Cons.prems have ne: "\<And>y. y \<in> set xs \<Longrightarrow> p_id y \<noteq> pid" by (auto simp: image_iff)
    then have same: "map (\<lambda>q. if p_id q = pid then p' else q) xs = xs" by (rule replace_absent)
    have "p_nome y \<noteq> p_nome p'" if "y \<in> set xs" for y
      using ne [OF that] Cons.prems(2) that by simp
    then have "p_nome p' \<notin> p_nome ` set xs" by (metis imageE)
    moreover have "distinct (map p_nome xs)" using Cons.prems(1) by simp
    ultimately show ?thesis using True same by simp
  next
    case False
    with Cons.prems have "p_nome x \<noteq> p_nome p'" by simp
    moreover have "distinct (map p_nome (map (\<lambda>q. if p_id q = pid then p' else q) xs))"
      using Cons by simp
    moreover have "p_nome x \<notin> p_nome ` set xs" using Cons.prems(1) by simp
    ultimately show ?thesis using False by (auto simp: image_iff)
  qed
qed

lemma produto_update_esquema_ok:
  assumes "esquema_ok db" and "produto_update pid f db = Inr (p', db')"
    and "\<And>p. p_id (f p) = p_id p"
  shows "esquema_ok db'"
proof -
  from assms(2) obtain p where p: "produto_findUnique_id pid db = Some p" "p' = f p"
    "int4 (p_estoque p')"
    "find (\<lambda>q. p_id q \<noteq> pid \<and> p_nome q = p_nome p') (produtos db) = None"
    "db' = db\<lparr>produtos := map (\<lambda>q. if p_id q = pid then p' else q) (produtos db)\<rparr>"
    using produto_update_Inr by blast
  from p(1) have "p_id p = pid" by (auto simp: produto_findUnique_id_def dest: find_Some_set)
  with p(2) assms(3) have id': "p_id p' = pid" by simp
  have ids: "map p_id (produtos db') = map p_id (produtos db)"
    using id' by (simp add: p(5) map_key_replace)
  have "distinct (map p_nome (map (\<lambda>q. if p_id q = pid then p' else q) (produtos db)))"
    by (rule distinct_nome_replace) (use assms(1) p(4) in \<open>auto simp: esquema_ok_iff find_None_iff\<close>)
  then have nomes: "distinct (map p_nome (produtos db'))" by (simp add: p(5))
  have faixa: "\<forall>q\<in>set (produtos db'). int4 (p_estoque q)"
    using assms(1) p(3) by (auto simp: esquema_ok_iff p(5))
  have "set (map p_id (produtos db')) = set (map p_id (produtos db))" using ids by simp
  then have img: "p_id ` set (produtos db') = p_id ` set (produtos db)" by simp
  show ?thesis
    unfolding esquema_ok_iff ids img using assms(1) nomes faixa
    by (simp add: esquema_ok_iff p(5))
qed

lemma produto_create_Inr:
  "produto_create p db = Inr (p', db') \<Longrightarrow>
   p' = p \<and> int4 (p_estoque p) \<and>
   find (\<lambda>q. p_id q = p_id p \<or> p_nome q = p_nome p) (produtos db) = None \<and>
   db' = db\<lparr>produtos := produtos db @ [p]\<rparr>"
  by (auto simp: produto_create_def split: if_splits)

lemma produto_create_esquema_ok:
  assumes "esquema_ok db" and "produto_create p db = Inr (p', db')"
  shows "esquema_ok db'"
proof -
  from assms(2) have p: "int4 (p_estoque p)"
    "find (\<lambda>q. p_id q = p_id p \<or> p_nome q = p_nome p) (produtos db) = None"
    "db' = db\<lparr>produtos := produtos db @ [p]\<rparr>"
    using produto_create_Inr by blast+
  from p(2) have "p_id p \<notin> p_id ` set (produtos db)" "p_nome p \<notin> p_nome ` set (produtos db)"
    by (auto simp: find_None_iff)
  with assms(1) p(1) show ?thesis
    by (auto simp: esquema_ok_iff p(3))
qed

lemma produto_delete_Inr:
  "produto_delete pid db = Inr (p, db') \<Longrightarrow>
   produto_findUnique_id pid db = Some p \<and> find (\<lambda>i. i_produtoId i = pid) (itens db) = None \<and>
   db' = db\<lparr>produtos := filter (\<lambda>q. p_id q \<noteq> pid) (produtos db)\<rparr>"
  by (auto simp: produto_delete_def itemCarrinho_findFirst_produtoId_def
      split: option.splits if_splits)

lemma produto_delete_esquema_ok:
  assumes "esquema_ok db" and "produto_delete pid db = Inr (p, db')"
  shows "esquema_ok db'"
proof -
  from assms(2) have p: "find (\<lambda>i. i_produtoId i = pid) (itens db) = None"
    "db' = db\<lparr>produtos := filter (\<lambda>q. p_id q \<noteq> pid) (produtos db)\<rparr>"
    using produto_delete_Inr by blast+
  from p(1) have ref: "\<And>i. i \<in> set (itens db) \<Longrightarrow> i_produtoId i \<noteq> pid"
    by (auto simp: find_None_iff)
  have fk: "i_produtoId i \<in> p_id ` set (filter (\<lambda>q. p_id q \<noteq> pid) (produtos db))"
    if "i \<in> set (itens db)" for i
    using assms(1) ref [OF that] that by (auto simp: esquema_ok_iff image_iff)
  show ?thesis
    using assms(1) fk by (simp add: esquema_ok_iff p(2) distinct_map_filter)
qed

lemma carrinho_create_Inr:
  "carrinho_create c db = Inr (c', db') \<Longrightarrow>
   c' = c \<and> find (\<lambda>d. c_id d = c_id c \<or> c_usuarioId d = c_usuarioId c) (carrinhos db) = None \<and>
   db' = db\<lparr>carrinhos := carrinhos db @ [c]\<rparr>"
  by (auto simp: carrinho_create_def split: if_splits)

lemma carrinho_create_esquema_ok:
  assumes "esquema_ok db" and "carrinho_create c db = Inr (c', db')"
  shows "esquema_ok db'"
proof -
  from assms(2) have p:
    "find (\<lambda>d. c_id d = c_id c \<or> c_usuarioId d = c_usuarioId c) (carrinhos db) = None"
    "db' = db\<lparr>carrinhos := carrinhos db @ [c]\<rparr>"
    using carrinho_create_Inr by blast+
  from p(1) have "c_id c \<notin> c_id ` set (carrinhos db)"
    "c_usuarioId c \<notin> c_usuarioId ` set (carrinhos db)"
    by (auto simp: find_None_iff)
  with assms(1) show ?thesis
    by (auto simp: esquema_ok_iff p(2))
qed

text \<open>Under the foreign key every line has its product, so the include succeeds.\<close>

lemma carrinho_include_ok:
  assumes "esquema_ok db"
  shows "carrinho_include c db =
     Inr \<lparr>ci_id = c_id c, ci_usuarioId = c_usuarioId c,
          ci_itens = map (\<lambda>i. (i, the (produto_findUnique_id (i_produtoId i) db)))
                       (itens_do_carrinho (c_id c) db)\<rparr>"
proof -
  have "list_all (\<lambda>i. produto_findUnique_id (i_produtoId i) db \<noteq> None)
          (itens_do_carrinho (c_id c) db)"
    using assms by (auto simp: esquema_ok_def list_all_iff itens_do_carrinho_def)
  then show ?thesis
    by (simp add: carrinho_include_def incluir_produto_Some)
qed


lemma carrinho_update_upsert_Inr:
  assumes "carrinho_update_upsert cid pid q uuid db = Inr (r, db')"
  shows "\<exists>c. carrinho_findUnique_id cid db = Some c \<and> carrinho_include c db' = Inr r \<and>
     ((\<exists>i. find (\<lambda>i. i_produtoId i = pid \<and> i_carrinhoId i = cid) (itens db) = Some i \<and>
           int4 (i_quantidade i + q) \<and>
           db' = db\<lparr>itens := map (\<lambda>j. if i_produtoId j = pid \<and> i_carrinhoId j = cid
                                       then j\<lparr>i_quantidade := i_quantidade j + q\<rparr> else j)
                                (itens db)\<rparr>) \<or>
      (find (\<lambda>i. i_produtoId i = pid \<and> i_carrinhoId i = cid) (itens db) = None \<and>
       int4 q \<and> find (\<lambda>j. i_id j = uuid) (itens db) = None \<and>
       produto_findUnique_id pid db \<noteq> None \<and>
       db' = db\<lparr>itens := itens db @
               [\<lparr>i_id = uuid, i_quantidade = q, i_produtoId = pid, i_carrinhoId = cid\<rparr>]\<rparr>))"
  using assms
  by (auto simp: carrinho_update_upsert_def Let_def split: option.splits if_splits sum.splits)

lemma map_incrementa_chaves:
  "map chave (map (\<lambda>j. if P j then j\<lparr>i_quantidade := g j\<rparr> else j) is) = map chave is"
  "map i_id (map (\<lambda>j. if P j then j\<lparr>i_quantidade := g j\<rparr> else j) is) = map i_id is"
  "map i_produtoId (map (\<lambda>j. if P j then j\<lparr>i_quantidade := g j\<rparr> else j) is) = map i_produtoId is"
  "map i_carrinhoId (map (\<lambda>j. if P j then j\<lparr>i_quantidade := g j\<rparr> else j) is) = map i_carrinhoId is"
  by (induction "is") (auto simp: chave_def)

lemma carrinho_update_upsert_esquema_ok:
  assumes "esquema_ok db" and "carrinho_update_upsert cid pid q uuid db = Inr (r, db')"
  shows "esquema_ok db'"
proof -
  from carrinho_update_upsert_Inr [OF assms(2)] obtain c where
    c: "carrinho_findUnique_id cid db = Some c" and
    cases: "(\<exists>i. find (\<lambda>i. i_produtoId i = pid \<and> i_carrinhoId i = cid) (itens db) = Some i \<and>
           int4 (i_quantidade i + q) \<and>
           db' = db\<lparr>itens := map (\<lambda>j. if i_produtoId j = pid \<and> i_carrinhoId j = cid
                                       then j\<lparr>i_quantidade := i_quantidade j + q\<rparr> else j)
                                (itens db)\<rparr>) \<or>
      (find (\<lambda>i. i_produtoId i = pid \<and> i_carrinhoId i = cid) (itens db) = None \<and>
       int4 q \<and> find (\<lambda>j. i_id j = uuid) (itens db) = None \<and>
       produto_findUnique_id pid db \<noteq> None \<and>
       db' = db\<lparr>itens := itens db @
               [\<lparr>i_id = uuid, i_quantidade = q, i_produtoId = pid, i_carrinhoId = cid\<rparr>]\<rparr>)"
    by blast
  from c have cin: "cid \<in> c_id ` set (carrinhos db)"
    by (auto simp: carrinho_findUnique_id_def dest: find_Some_set)
  from cases show ?thesis
  proof (elim disjE exE conjE)
    fix i
    assume f: "find (\<lambda>i. i_produtoId i = pid \<and> i_carrinhoId i = cid) (itens db) = Some i"
      and r: "int4 (i_quantidade i + q)"
      and d: "db' = db\<lparr>itens := map (\<lambda>j. if i_produtoId j = pid \<and> i_carrinhoId j = cid
                                       then j\<lparr>i_quantidade := i_quantidade j + q\<rparr> else j)
                                (itens db)\<rparr>"
    from f have i: "i \<in> set (itens db)" "chave i = (pid, cid)"
      by (auto simp: chave_def dest: find_Some_set)
    have uniq: "j = i" if "j \<in> set (itens db)" "i_produtoId j = pid" "i_carrinhoId j = cid" for j
      using assms(1) i that by (auto simp: esquema_ok_iff chave_def dest: inj_on_eq_iff [OF _ that(1) i(1), rotated] simp: distinct_map)
    have same: "produtos db' = produtos db" "carrinhos db' = carrinhos db"
      "map i_id (itens db') = map i_id (itens db)"
      "map chave (itens db') = map chave (itens db)"
      by (simp_all add: d map_incrementa_chaves del: map_map)
    have fk: "\<forall>j\<in>set (itens db'). i_produtoId j \<in> p_id ` set (produtos db) \<and>
                i_carrinhoId j \<in> c_id ` set (carrinhos db) \<and> int4 (i_quantidade j)"
      using assms(1) r uniq by (auto simp: d esquema_ok_iff)
    show ?thesis
      unfolding esquema_ok_iff same using assms(1) fk by (simp add: esquema_ok_iff)
  next
    assume f: "find (\<lambda>i. i_produtoId i = pid \<and> i_carrinhoId i = cid) (itens db) = None"
      and r: "int4 q" and u: "find (\<lambda>j. i_id j = uuid) (itens db) = None"
      and p: "produto_findUnique_id pid db \<noteq> None"
      and d: "db' = db\<lparr>itens := itens db @
               [\<lparr>i_id = uuid, i_quantidade = q, i_produtoId = pid, i_carrinhoId = cid\<rparr>]\<rparr>"
    from f have k: "(pid, cid) \<notin> chave ` set (itens db)"
      by (auto simp: find_None_iff chave_def)
    from u have v: "uuid \<notin> i_id ` set (itens db)" by (auto simp: find_None_iff)
    from p have pin: "pid \<in> p_id ` set (produtos db)"
      by (simp add: produto_findUnique_id_def find_key_None)
    show ?thesis
      using assms(1) r k v pin cin unfolding esquema_ok_iff d
      by (auto simp: chave_def)
  qed
qed

lemma find_anexar:
  "find P (xs @ ys) = (case find P xs of None \<Rightarrow> find P ys | Some x \<Rightarrow> Some x)"
  by (induction xs) auto

lemma carrinho_update_delete_Inr:
  assumes "carrinho_update_delete cid iid db = Inr (r, db')"
  shows "\<exists>c. carrinho_findUnique_id cid db = Some c \<and> carrinho_include c db' = Inr r \<and>
     find (\<lambda>i. i_id i = iid \<and> i_carrinhoId i = cid) (itens db) \<noteq> None \<and>
     db' = db\<lparr>itens := filter (\<lambda>i. i_id i \<noteq> iid) (itens db)\<rparr>"
  using assms
  by (auto simp: carrinho_update_delete_def Let_def split: option.splits if_splits sum.splits)

lemma carrinho_update_delete_esquema_ok:
  assumes "esquema_ok db" and "carrinho_update_delete cid iid db = Inr (r, db')"
  shows "esquema_ok db'"
proof -
  from carrinho_update_delete_Inr [OF assms(2)]
  have d: "db' = db\<lparr>itens := filter (\<lambda>i. i_id i \<noteq> iid) (itens db)\<rparr>" by blast
  show ?thesis
    using assms(1) by (auto simp: esquema_ok_iff d distinct_map_filter)
qed

lemma obterOuCriarCarrinho_banco:
  assumes "obterOuCriarCarrinho uuid db = (r, db')"
  shows "db' = db \<or>
     (carrinho_findUnique_usuarioId usuarioId db = None \<and>
      find (\<lambda>d. c_id d = uuid \<or> c_usuarioId d = usuarioId) (carrinhos db) = None \<and>
      db' = db\<lparr>carrinhos := carrinhos db @ [\<lparr>c_id = uuid, c_usuarioId = usuarioId\<rparr>]\<rparr>)"
  using assms
  by (auto simp: obterOuCriarCarrinho_def carrinho_create_def
      split: option.splits sum.splits if_splits)

lemma obterOuCriarCarrinho_tabelas:
  assumes "obterOuCriarCarrinho uuid db = (r, db')"
  shows "produtos db' = produtos db" and "itens db' = itens db"
  using obterOuCriarCarrinho_banco [OF assms] by auto

lemma obterOuCriarCarrinho_esquema_ok:
  assumes "esquema_ok db" and "obterOuCriarCarrinho uuid db = (r, db')"
  shows "esquema_ok db'"
proof -
  from obterOuCriarCarrinho_banco [OF assms(2)] show ?thesis
  proof (elim disjE conjE)
    assume "db' = db" with assms(1) show ?thesis by simp
  next
    assume n: "find (\<lambda>d. c_id d = uuid \<or> c_usuarioId d = usuarioId) (carrinhos db) = None"
      and d: "db' = db\<lparr>carrinhos := carrinhos db @ [\<lparr>c_id = uuid, c_usuarioId = usuarioId\<rparr>]\<rparr>"
    have "carrinho_create \<lparr>c_id = uuid, c_usuarioId = usuarioId\<rparr> db =
            Inr (\<lparr>c_id = uuid, c_usuarioId = usuarioId\<rparr>, db')"
      using n d by (simp add: carrinho_create_def)
    with assms(1) show ?thesis by (rule carrinho_create_esquema_ok)
  qed
qed


subsection \<open>What each handler does to the database\<close>

lemma transaction_Inr:
  "transaction a b db = Inr ((x, y), db2) \<Longrightarrow> \<exists>db1. a db = Inr (x, db1) \<and> b db1 = Inr (y, db2)"
  by (auto simp: transaction_def split: sum.splits)

lemma criarProduto_Inr:
  assumes "criarProduto uuid d db = (Inr x, db')"
  shows "produto_findUnique_nome (cp_nome d) db = None \<and>
     x = (msg_produto_criado,
          \<lparr>p_id = uuid, p_nome = cp_nome d, p_preco = cp_preco d, p_estoque = cp_estoque d\<rparr>) \<and>
     produto_create \<lparr>p_id = uuid, p_nome = cp_nome d, p_preco = cp_preco d,
                     p_estoque = cp_estoque d\<rparr> db = Inr (snd x, db')"
  using assms
  by (auto simp: criarProduto_def split: option.splits sum.splits dest: produto_create_Inr)

lemma criarProduto_Inl: "criarProduto uuid d db = (Inl e, db') \<Longrightarrow> db' = db"
  by (auto simp: criarProduto_def split: option.splits sum.splits)

lemma atualizarProduto_Inr:
  assumes "atualizarProduto pid d db = (Inr x, db')"
  shows "chaves d \<noteq> [] \<and> fst x = msg_produto_atualizado \<and>
         produto_update pid (aplicar d) db = Inr (snd x, db')"
  using assms
  by (auto simp: atualizarProduto_def split: option.splits sum.splits if_splits)

lemma atualizarProduto_Inl: "atualizarProduto pid d db = (Inl e, db') \<Longrightarrow> db' = db"
  by (auto simp: atualizarProduto_def split: option.splits sum.splits if_splits)

lemma removerProduto_Inr:
  assumes "removerProduto pid db = (Inr x, db')"
  shows "\<exists>p. produto_delete pid db = Inr (p, db')"
  using assms
  by (auto simp: removerProduto_def split: option.splits sum.splits)

lemma removerProduto_Inl: "removerProduto pid db = (Inl e, db') \<Longrightarrow> db' = db"
  by (auto simp: removerProduto_def split: option.splits sum.splits)

lemma adicionarItem_verificar_Inr:
  assumes "adicionarItem_verificar uc d db = (Inr c, db1)"
  shows "obterOuCriarCarrinho uc db = (Inr c, db1) \<and>
     (\<exists>p. produto_findUnique_id (ai_produtoId d) db1 = Some p \<and> ai_quantidade d \<le> p_estoque p)"
  using assms
  by (auto simp: adicionarItem_verificar_def split: prod.splits option.splits sum.splits if_splits)

lemma adicionarItem_verificar_banco:
  assumes "adicionarItem_verificar uc d db = (r, db1)"
  shows "\<exists>r'. obterOuCriarCarrinho uc db = (r', db1)"
  using assms
  by (auto simp: adicionarItem_verificar_def split: prod.splits option.splits sum.splits if_splits)

lemma adicionarItem_transacao_Inr:
  assumes "adicionarItem_transacao ui c d db1 = (Inr x, db')"
  shows "\<exists>p' db2 r.
     produto_update (ai_produtoId d) (\<lambda>p. p\<lparr>p_estoque := p_estoque p - ai_quantidade d\<rparr>) db1
       = Inr (p', db2) \<and>
     carrinho_update_upsert (ci_id c) (ai_produtoId d) (ai_quantidade d) ui db2 = Inr (r, db') \<and>
     x = (msg_item_adicionado, formatarCarrinho r)"
  using assms
  by (auto simp: adicionarItem_transacao_def split: prod.splits sum.splits dest!: transaction_Inr)

lemma adicionarItem_transacao_Inl:
  "adicionarItem_transacao ui c d db1 = (Inl e, db') \<Longrightarrow> db' = db1"
  by (auto simp: adicionarItem_transacao_def split: prod.splits sum.splits)

lemma adicionarItem_Inr:
  assumes "adicionarItem uc ui d db = (Inr x, db')"
  shows "\<exists>c db1 p p' db2 r.
     obterOuCriarCarrinho uc db = (Inr c, db1) \<and>
     produto_findUnique_id (ai_produtoId d) db1 = Some p \<and> ai_quantidade d \<le> p_estoque p \<and>
     produto_update (ai_produtoId d) (\<lambda>p. p\<lparr>p_estoque := p_estoque p - ai_quantidade d\<rparr>) db1
       = Inr (p', db2) \<and>
     carrinho_update_upsert (ci_id c) (ai_produtoId d) (ai_quantidade d) ui db2 = Inr (r, db') \<and>
     x = (msg_item_adicionado, formatarCarrinho r)"
proof -
  from assms obtain c db1 where v: "adicionarItem_verificar uc d db = (Inr c, db1)"
    and t: "adicionarItem_transacao ui c d db1 = (Inr x, db')"
    by (auto simp: adicionarItem_def split: prod.splits sum.splits)
  from adicionarItem_verificar_Inr [OF v] adicionarItem_transacao_Inr [OF t]
  show ?thesis by blast
qed

lemma adicionarItem_Inl:
  assumes "adicionarItem uc ui d db = (Inl e, db')"
  shows "\<exists>r. obterOuCriarCarrinho uc db = (r, db')"
proof -
  obtain v db1 where v: "adicionarItem_verificar uc d db = (v, db1)" by force
  with assms have "db' = db1"
    by (auto simp: adicionarItem_def split: sum.splits dest: adicionarItem_transacao_Inl)
  with adicionarItem_verificar_banco [OF v] show ?thesis by simp
qed

lemma verCarrinho_banco:
  "verCarrinho uc db = (r, db') \<Longrightarrow> \<exists>r'. obterOuCriarCarrinho uc db = (r', db')"
  by (auto simp: verCarrinho_def split: prod.splits sum.splits)

lemma removerItem_Inr:
  assumes "removerItem uc pid db = (Inr x, db')"
  shows "\<exists>c db1 i p' db2 r.
     obterOuCriarCarrinho uc db = (Inr c, db1) \<and>
     find (\<lambda>i. i_produtoId (fst i) = pid) (ci_itens c) = Some i \<and>
     produto_update pid (\<lambda>p. p\<lparr>p_estoque := p_estoque p + i_quantidade (fst i)\<rparr>) db1
       = Inr (p', db2) \<and>
     carrinho_update_delete (ci_id c) (i_id (fst i)) db2 = Inr (r, db') \<and>
     x = (msg_item_removido, formatarCarrinho r)"
  using assms
  by (auto simp: removerItem_def split: prod.splits option.splits sum.splits dest!: transaction_Inr)

lemma removerItem_Inl:
  assumes "removerItem uc pid db = (Inl e, db')"
  shows "\<exists>r. obterOuCriarCarrinho uc db = (r, db')"
  using assms
  by (auto simp: removerItem_def split: prod.splits option.splits sum.splits)

subsection \<open>Every request keeps the constraints of the schema\<close>

lemma aplicar_id: "p_id (aplicar d p) = p_id p"
  by (simp add: aplicar_def)

lemma criarProduto_esquema_ok:
  assumes "esquema_ok db" shows "esquema_ok (snd (criarProduto uuid d db))"
proof (cases "criarProduto uuid d db")
  case (Pair r db')
  show ?thesis
  proof (cases r)
    case (Inl e)
    with Pair assms show ?thesis by (auto dest: criarProduto_Inl)
  next
    case (Inr x)
    with Pair criarProduto_Inr have "produto_create \<lparr>p_id = uuid, p_nome = cp_nome d,
        p_preco = cp_preco d, p_estoque = cp_estoque d\<rparr> db = Inr (snd x, db')" by blast
    with assms Pair show ?thesis by (auto dest: produto_create_esquema_ok)
  qed
qed

lemma atualizarProduto_esquema_ok:
  assumes "esquema_ok db" shows "esquema_ok (snd (atualizarProduto pid d db))"
proof (cases "atualizarProduto pid d db")
  case (Pair r db')
  show ?thesis
  proof (cases r)
    case (Inl e)
    with Pair assms show ?thesis by (auto dest: atualizarProduto_Inl)
  next
    case (Inr x)
    with Pair atualizarProduto_Inr have "produto_update pid (aplicar d) db = Inr (snd x, db')"
      by blast
    with assms have "esquema_ok db'" by (rule produto_update_esquema_ok) (rule aplicar_id)
    with Pair show ?thesis by simp
  qed
qed

lemma removerProduto_esquema_ok:
  assumes "esquema_ok db" shows "esquema_ok (snd (removerProduto pid db))"
proof (cases "removerProduto pid db")
  case (Pair r db')
  show ?thesis
  proof (cases r)
    case (Inl e)
    with Pair assms show ?thesis by (auto dest: removerProduto_Inl)
  next
    case (Inr x)
    with Pair removerProduto_Inr obtain p where "produto_delete pid db = Inr (p, db')" by blast
    with assms Pair show ?thesis by (auto dest: produto_delete_esquema_ok)
  qed
qed

lemma adicionarItem_esquema_ok:
  assumes "esquema_ok db" shows "esquema_ok (snd (adicionarItem uc ui d db))"
proof (cases "adicionarItem uc ui d db")
  case (Pair r db')
  show ?thesis
  proof (cases r)
    case (Inl e)
    with Pair adicionarItem_Inl obtain r' where "obterOuCriarCarrinho uc db = (r', db')" by blast
    with assms Pair show ?thesis by (auto dest: obterOuCriarCarrinho_esquema_ok)
  next
    case (Inr x)
    with Pair adicionarItem_Inr obtain c db1 p' db2 r' where
      o: "obterOuCriarCarrinho uc db = (Inr c, db1)" and
      u: "produto_update (ai_produtoId d) (\<lambda>p. p\<lparr>p_estoque := p_estoque p - ai_quantidade d\<rparr>) db1
            = Inr (p', db2)" and
      s: "carrinho_update_upsert (ci_id c) (ai_produtoId d) (ai_quantidade d) ui db2 = Inr (r', db')"
      by blast
    from assms o have "esquema_ok db1" by (rule obterOuCriarCarrinho_esquema_ok)
    then have "esquema_ok db2" using u by (rule produto_update_esquema_ok) simp
    then have "esquema_ok db'" using s by (rule carrinho_update_upsert_esquema_ok)
    with Pair show ?thesis by simp
  qed
qed

lemma verCarrinho_esquema_ok:
  assumes "esquema_ok db" shows "esquema_ok (snd (verCarrinho uc db))"
proof (cases "verCarrinho uc db")
  case (Pair r db')
  with verCarrinho_banco obtain r' where "obterOuCriarCarrinho uc db = (r', db')" by blast
  with assms Pair show ?thesis by (auto dest: obterOuCriarCarrinho_esquema_ok)
qed

lemma removerItem_esquema_ok:
  assumes "esquema_ok db" shows "esquema_ok (snd (removerItem uc pid db))"
proof (cases "removerItem uc pid db")
  case (Pair r db')
  show ?thesis
  proof (cases r)
    case (Inl e)
    with Pair removerItem_Inl obtain r' where "obterOuCriarCarrinho uc db = (r', db')" by blast
    with assms Pair show ?thesis by (auto dest: obterOuCriarCarrinho_esquema_ok)
  next
    case (Inr x)
    with Pair removerItem_Inr obtain c db1 and i :: "ItemCarrinho \<times> Produto" and p' db2 r' where
      o: "obterOuCriarCarrinho uc db = (Inr c, db1)" and
      u: "produto_update pid (\<lambda>p. p\<lparr>p_estoque := p_estoque p + i_quantidade (fst i)\<rparr>) db1
            = Inr (p', db2)" and
      s: "carrinho_update_delete (ci_id c) (i_id (fst i)) db2 = Inr (r', db')"
      by blast
    from assms o have "esquema_ok db1" by (rule obterOuCriarCarrinho_esquema_ok)
    then have "esquema_ok db2" using u by (rule produto_update_esquema_ok) simp
    then have "esquema_ok db'" using s by (rule carrinho_update_delete_esquema_ok)
    with Pair show ?thesis by simp
  qed
qed

lemma executar_esquema_ok: "esquema_ok db \<Longrightarrow> esquema_ok (executar r db)"
  by (cases r)
    (simp_all add: post_produtos_def put_produtos_def post_carrinho_adicionar_def
      criarProduto_esquema_ok atualizarProduto_esquema_ok removerProduto_esquema_ok
      adicionarItem_esquema_ok verCarrinho_esquema_ok removerItem_esquema_ok)

lemma executar_todas_esquema_ok: "esquema_ok db \<Longrightarrow> esquema_ok (executar_todas rs db)"
  by (induction rs arbitrary: db) (simp_all add: executar_esquema_ok)

lemma banco_vazio_esquema_ok: "esquema_ok banco_vazio"
  by (simp add: esquema_ok_def banco_vazio_def)

lemma find_filtrada: "find (\<lambda>q. f q = k) (filter (\<lambda>q. f q \<noteq> k) xs) = None"
  by (simp add: find_None_iff)

subsection \<open>Resolving the owner's cart\<close>

lemma obterOuCriarCarrinho_existente:
  assumes "esquema_ok db" and "carrinho_findUnique_usuarioId usuarioId db = Some c"
  shows "obterOuCriarCarrinho uc db =
     (Inr \<lparr>ci_id = c_id c, ci_usuarioId = c_usuarioId c,
           ci_itens = map (\<lambda>i. (i, the (produto_findUnique_id (i_produtoId i) db)))
                        (itens_do_carrinho (c_id c) db)\<rparr>, db)"
  using assms by (simp add: obterOuCriarCarrinho_def carrinho_include_ok)

lemma obterOuCriarCarrinho_novo:
  assumes "esquema_ok db" and "carrinho_findUnique_usuarioId usuarioId db = None"
    and "carrinho_findUnique_id uc db = None"
  shows "obterOuCriarCarrinho uc db =
     (Inr \<lparr>ci_id = uc, ci_usuarioId = usuarioId, ci_itens = []\<rparr>,
      db\<lparr>carrinhos := carrinhos db @ [\<lparr>c_id = uc, c_usuarioId = usuarioId\<rparr>]\<rparr>)"
proof -
  let ?c = "\<lparr>c_id = uc, c_usuarioId = usuarioId\<rparr>"
  let ?db = "db\<lparr>carrinhos := carrinhos db @ [?c]\<rparr>"
  have "find (\<lambda>d. c_id d = uc \<or> c_usuarioId d = usuarioId) (carrinhos db) = None"
    using assms(2,3)
    by (auto simp: find_None_iff carrinho_findUnique_usuarioId_def carrinho_findUnique_id_def)
  then have cr: "carrinho_create ?c db = Inr (?c, ?db)"
    by (simp add: carrinho_create_def)
  with assms(1) have ok: "esquema_ok ?db" by (rule carrinho_create_esquema_ok)
  have "uc \<notin> c_id ` set (carrinhos db)"
    using assms(3) by (simp add: carrinho_findUnique_id_def find_key_None)
  then have "itens_do_carrinho uc ?db = []"
    using assms(1) by (auto simp: itens_do_carrinho_def esquema_ok_iff filter_empty_conv)
  then have "carrinho_include ?c ?db = Inr \<lparr>ci_id = uc, ci_usuarioId = usuarioId, ci_itens = []\<rparr>"
    by (simp add: carrinho_include_ok [OF ok])
  with cr assms(2) show ?thesis
    by (simp add: obterOuCriarCarrinho_def)
qed

lemma obterOuCriarCarrinho_sucesso:
  assumes "esquema_ok db" and "carrinho_findUnique_id uc db = None"
  shows "\<exists>c db1. obterOuCriarCarrinho uc db = (Inr c, db1)"
proof (cases "carrinho_findUnique_usuarioId usuarioId db")
  case None
  with assms show ?thesis by (auto dest: obterOuCriarCarrinho_novo)
next
  case (Some c)
  with assms(1) show ?thesis by (auto dest: obterOuCriarCarrinho_existente)
qed

subsection \<open>The formatted cart\<close>





subsection \<open>Stock and quantities stay in range\<close>















subsection \<open>One line per product and cart\<close>








subsection \<open>When the writes of the store succeed\<close>

lemma produto_update_sucesso:
  assumes "esquema_ok db" and "produto_findUnique_id pid db = Some p"
    and "int4 (p_estoque (f p))" and "p_nome (f p) = p_nome p"
  shows "produto_update pid f db =
     Inr (f p, db\<lparr>produtos := map (\<lambda>q. if p_id q = pid then f p else q) (produtos db)\<rparr>)"
proof -
  from assms(2) have p: "p \<in> set (produtos db)" "p_id p = pid"
    by (auto simp: produto_findUnique_id_def dest: find_Some_set)
  have "q = p" if "q \<in> set (produtos db)" "p_nome q = p_nome p" for q
    using assms(1) p(1) that by (auto simp: esquema_ok_iff distinct_map dest: inj_onD)
  with p(2) have "find (\<lambda>q. p_id q \<noteq> pid \<and> p_nome q = p_nome (f p)) (produtos db) = None"
    by (auto simp: find_None_iff assms(4))
  with assms(2,3) show ?thesis by (simp add: produto_update_def Let_def)
qed

lemma carrinho_include_sucesso:
  assumes "list_all (\<lambda>i. produto_findUnique_id (i_produtoId i) db \<noteq> None) (itens db)"
  shows "\<exists>r. carrinho_include c db = Inr r"
proof -
  have "list_all (\<lambda>i. produto_findUnique_id (i_produtoId i) db \<noteq> None)
          (itens_do_carrinho (c_id c) db)"
    using assms by (auto simp: list_all_iff itens_do_carrinho_def)
  then show ?thesis
    by (simp add: carrinho_include_def incluir_produto_Some)
qed

lemma esquema_ok_produtos_das_linhas:
  "esquema_ok db \<Longrightarrow> list_all (\<lambda>i. produto_findUnique_id (i_produtoId i) db \<noteq> None) (itens db)"
  by (auto simp: esquema_ok_def list_all_iff)

lemma carrinho_update_upsert_cria:
  assumes "esquema_ok db" and "carrinho_findUnique_id cid db = Some c"
    and "find (\<lambda>i. i_produtoId i = pid \<and> i_carrinhoId i = cid) (itens db) = None"
    and "int4 q" and "find (\<lambda>j. i_id j = uuid) (itens db) = None"
    and "produto_findUnique_id pid db \<noteq> None"
  shows "\<exists>r. carrinho_update_upsert cid pid q uuid db =
     Inr (r, db\<lparr>itens := itens db @
            [\<lparr>i_id = uuid, i_quantidade = q, i_produtoId = pid, i_carrinhoId = cid\<rparr>]\<rparr>)"
proof -
  let ?db = "db\<lparr>itens := itens db @
            [\<lparr>i_id = uuid, i_quantidade = q, i_produtoId = pid, i_carrinhoId = cid\<rparr>]\<rparr>"
  have "list_all (\<lambda>i. produto_findUnique_id (i_produtoId i) ?db \<noteq> None) (itens ?db)"
    using esquema_ok_produtos_das_linhas [OF assms(1)] assms(6)
    by (simp add: produto_findUnique_id_def)
  then obtain r where "carrinho_include c ?db = Inr r"
    using carrinho_include_sucesso by blast
  with assms(2-6) show ?thesis
    by (simp add: carrinho_update_upsert_def Let_def)
qed

lemma incrementa_uma_linha:
  assumes "distinct (map chave is)" and "i \<in> set is" and "chave i = (pid, cid)"
  shows "map (\<lambda>j. if i_produtoId j = pid \<and> i_carrinhoId j = cid
                   then j\<lparr>i_quantidade := i_quantidade j + q\<rparr> else j) is =
         map (\<lambda>j. if j = i then i\<lparr>i_quantidade := i_quantidade i + q\<rparr> else j) is"
proof (rule map_cong [OF refl])
  fix j assume j: "j \<in> set is"
  have "chave j = chave i \<longleftrightarrow> j = i"
    using assms(1,2) j by (auto simp: distinct_map dest: inj_onD)
  then have "(i_produtoId j = pid \<and> i_carrinhoId j = cid) \<longleftrightarrow> j = i"
    using assms(3) by (auto simp: chave_def)
  then show "(if i_produtoId j = pid \<and> i_carrinhoId j = cid
                   then j\<lparr>i_quantidade := i_quantidade j + q\<rparr> else j) =
        (if j = i then i\<lparr>i_quantidade := i_quantidade i + q\<rparr> else j)"
    by auto
qed

lemma carrinho_update_upsert_incrementa:
  assumes "esquema_ok db" and "carrinho_findUnique_id cid db = Some c"
    and "find (\<lambda>i. i_produtoId i = pid \<and> i_carrinhoId i = cid) (itens db) = Some i"
    and "int4 (i_quantidade i + q)"
  shows "\<exists>r. carrinho_update_upsert cid pid q uuid db =
     Inr (r, db\<lparr>itens := map (\<lambda>j. if j = i then i\<lparr>i_quantidade := i_quantidade i + q\<rparr> else j)
                            (itens db)\<rparr>)"
proof -
  let ?m = "map (\<lambda>j. if i_produtoId j = pid \<and> i_carrinhoId j = cid
                   then j\<lparr>i_quantidade := i_quantidade j + q\<rparr> else j) (itens db)"
  let ?db = "db\<lparr>itens := ?m\<rparr>"
  from assms(3) have i: "i \<in> set (itens db)" "chave i = (pid, cid)"
    by (auto simp: chave_def dest: find_Some_set)
  have m: "?m = map (\<lambda>j. if j = i then i\<lparr>i_quantidade := i_quantidade i + q\<rparr> else j) (itens db)"
    using assms(1) i by (intro incrementa_uma_linha) (simp_all add: esquema_ok_iff)
  have "list_all (\<lambda>i. produto_findUnique_id (i_produtoId i) ?db \<noteq> None) (itens ?db)"
    using esquema_ok_produtos_das_linhas [OF assms(1)]
    by (auto simp: produto_findUnique_id_def list_all_iff)
  then obtain r where "carrinho_include c ?db = Inr r"
    using carrinho_include_sucesso by blast
  with assms(2-4) have "carrinho_update_upsert cid pid q uuid db = Inr (r, ?db)"
    by (simp add: carrinho_update_upsert_def Let_def)
  then show ?thesis unfolding m by blast
qed

lemma carrinho_update_delete_sucesso:
  assumes "esquema_ok db" and "carrinho_findUnique_id cid db = Some c"
    and "find (\<lambda>i. i_id i = iid \<and> i_carrinhoId i = cid) (itens db) \<noteq> None"
  shows "\<exists>r. carrinho_update_delete cid iid db =
     Inr (r, db\<lparr>itens := filter (\<lambda>i. i_id i \<noteq> iid) (itens db)\<rparr>)"
proof -
  let ?db = "db\<lparr>itens := filter (\<lambda>i. i_id i \<noteq> iid) (itens db)\<rparr>"
  have "list_all (\<lambda>i. produto_findUnique_id (i_produtoId i) ?db \<noteq> None) (itens ?db)"
    using esquema_ok_produtos_das_linhas [OF assms(1)]
    by (auto simp: produto_findUnique_id_def list_all_iff)
  then obtain r where "carrinho_include c ?db = Inr r"
    using carrinho_include_sucesso by blast
  with assms(2,3) show ?thesis
    by (auto simp: carrinho_update_delete_def Let_def)
qed

subsection \<open>When adding and removing succeed\<close>

lemma carrinho_por_id:
  assumes "esquema_ok db" and "carrinho_findUnique_usuarioId usuarioId db = Some c"
  shows "carrinho_findUnique_id (c_id c) db = Some c"
proof -
  from assms(2) have "c \<in> set (carrinhos db)"
    by (auto simp: carrinho_findUnique_usuarioId_def dest: find_Some_set)
  with assms(1) show ?thesis
    by (simp add: carrinho_findUnique_id_def esquema_ok_iff find_distinct_key)
qed

lemma int4_decremento:
  "int4 e \<Longrightarrow> 0 \<le> q \<Longrightarrow> q \<le> e \<Longrightarrow> int4 (e - q) \<and> int4 q"
  by (auto simp: int4_def)

lemma adicionarItem_com_carrinho:
  assumes ok: "esquema_ok db" and c: "carrinho_findUnique_usuarioId usuarioId db = Some c"
    and p: "produto_findUnique_id pid db = Some p" and q: "0 \<le> q" "q \<le> p_estoque p"
  shows "find (\<lambda>i. i_produtoId i = pid \<and> i_carrinhoId i = c_id c) (itens db) = None \<Longrightarrow>
         find (\<lambda>j. i_id j = ui) (itens db) = None \<Longrightarrow>
         \<exists>x. adicionarItem uc ui \<lparr>ai_produtoId = pid, ai_quantidade = q\<rparr> db =
           (Inr x, db\<lparr>produtos := map (\<lambda>r. if p_id r = pid then p\<lparr>p_estoque := p_estoque p - q\<rparr>
                                          else r) (produtos db),
                      itens := itens db @ [\<lparr>i_id = ui, i_quantidade = q, i_produtoId = pid,
                                            i_carrinhoId = c_id c\<rparr>]\<rparr>)"
    and "find (\<lambda>i. i_produtoId i = pid \<and> i_carrinhoId i = c_id c) (itens db) = Some i \<Longrightarrow>
         int4 (i_quantidade i + q) \<Longrightarrow>
         \<exists>x. adicionarItem uc ui \<lparr>ai_produtoId = pid, ai_quantidade = q\<rparr> db =
           (Inr x, db\<lparr>produtos := map (\<lambda>r. if p_id r = pid then p\<lparr>p_estoque := p_estoque p - q\<rparr>
                                          else r) (produtos db),
                      itens := map (\<lambda>j. if j = i then i\<lparr>i_quantidade := i_quantidade i + q\<rparr>
                                          else j) (itens db)\<rparr>)"
proof -
  let ?d = "\<lparr>ai_produtoId = pid, ai_quantidade = q\<rparr>"
  let ?p = "p\<lparr>p_estoque := p_estoque p - q\<rparr>"
  let ?db2 = "db\<lparr>produtos := map (\<lambda>r. if p_id r = pid then ?p else r) (produtos db)\<rparr>"
  let ?ca = "\<lparr>ci_id = c_id c, ci_usuarioId = c_usuarioId c,
           ci_itens = map (\<lambda>i. (i, the (produto_findUnique_id (i_produtoId i) db)))
                        (itens_do_carrinho (c_id c) db)\<rparr>"
  have o: "obterOuCriarCarrinho uc db = (Inr ?ca, db)"
    using ok c by (rule obterOuCriarCarrinho_existente)
  have v: "adicionarItem_verificar uc ?d db = (Inr ?ca, db)"
    using o p q by (simp add: adicionarItem_verificar_def)
  from p have pin: "p \<in> set (produtos db)" "p_id p = pid"
    by (auto simp: produto_findUnique_id_def dest: find_Some_set)
  with ok have "int4 (p_estoque p)" by (simp add: esquema_ok_iff)
  with q have r: "int4 (p_estoque p - q)" "int4 q" by (simp_all add: int4_decremento)
  have u: "produto_update pid (\<lambda>p. p\<lparr>p_estoque := p_estoque p - q\<rparr>) db = Inr (?p, ?db2)"
    using ok p r(1) by (simp add: produto_update_sucesso)
  with ok have ok2: "esquema_ok ?db2" by (rule produto_update_esquema_ok) simp
  have c2: "carrinho_findUnique_id (c_id c) ?db2 = Some c"
    using carrinho_por_id [OF ok c] by (simp add: carrinho_findUnique_id_def)
  have p2: "produto_findUnique_id pid ?db2 \<noteq> None"
    using p pin(2) by (simp add: produto_findUnique_id_def find_replace)
  {
    assume n: "find (\<lambda>i. i_produtoId i = pid \<and> i_carrinhoId i = c_id c) (itens db) = None"
      and f: "find (\<lambda>j. i_id j = ui) (itens db) = None"
    from carrinho_update_upsert_cria [OF ok2 c2 _ r(2) _ p2, of ui] n f
    obtain rr where "carrinho_update_upsert (c_id c) pid q ui ?db2 =
        Inr (rr, ?db2\<lparr>itens := itens ?db2 @
            [\<lparr>i_id = ui, i_quantidade = q, i_produtoId = pid, i_carrinhoId = c_id c\<rparr>]\<rparr>)"
      by auto
    with u v show "\<exists>x. adicionarItem uc ui ?d db =
           (Inr x, db\<lparr>produtos := map (\<lambda>r. if p_id r = pid then ?p else r) (produtos db),
                      itens := itens db @ [\<lparr>i_id = ui, i_quantidade = q, i_produtoId = pid,
                                            i_carrinhoId = c_id c\<rparr>]\<rparr>)"
      by (simp add: adicionarItem_def adicionarItem_transacao_def transaction_def)
  }
  {
    assume s: "find (\<lambda>i. i_produtoId i = pid \<and> i_carrinhoId i = c_id c) (itens db) = Some i"
      and f: "int4 (i_quantidade i + q)"
    from carrinho_update_upsert_incrementa [OF ok2 c2 _ f, of pid ui] s
    obtain rr where "carrinho_update_upsert (c_id c) pid q ui ?db2 =
        Inr (rr, ?db2\<lparr>itens := map (\<lambda>j. if j = i then i\<lparr>i_quantidade := i_quantidade i + q\<rparr>
                                          else j) (itens ?db2)\<rparr>)"
      by auto
    with u v show "\<exists>x. adicionarItem uc ui ?d db =
           (Inr x, db\<lparr>produtos := map (\<lambda>r. if p_id r = pid then ?p else r) (produtos db),
                      itens := map (\<lambda>j. if j = i then i\<lparr>i_quantidade := i_quantidade i + q\<rparr>
                                          else j) (itens db)\<rparr>)"
      by (simp add: adicionarItem_def adicionarItem_transacao_def transaction_def)
  }
qed

lemma find_filtro: "find P (filter Q xs) = find (\<lambda>x. P x \<and> Q x) xs"
  by (induction xs) auto

lemma find_map_par:
  "find (\<lambda>x. P (fst x)) (map (\<lambda>i. (i, g i)) xs) = map_option (\<lambda>i. (i, g i)) (find P xs)"
  by (induction xs) auto

lemma removerItem_com_carrinho:
  assumes ok: "esquema_ok db" and c: "carrinho_findUnique_usuarioId usuarioId db = Some c"
    and i: "find (\<lambda>i. i_produtoId i = pid \<and> i_carrinhoId i = c_id c) (itens db) = Some i"
    and p: "produto_findUnique_id pid db = Some p"
    and r: "int4 (p_estoque p + i_quantidade i)"
  shows "\<exists>x. removerItem uc pid db =
     (Inr x, db\<lparr>produtos := map (\<lambda>r. if p_id r = pid
                                        then p\<lparr>p_estoque := p_estoque p + i_quantidade i\<rparr>
                                        else r) (produtos db),
                itens := filter (\<lambda>j. i_id j \<noteq> i_id i) (itens db)\<rparr>)"
proof -
  let ?p = "p\<lparr>p_estoque := p_estoque p + i_quantidade i\<rparr>"
  let ?db2 = "db\<lparr>produtos := map (\<lambda>r. if p_id r = pid then ?p else r) (produtos db)\<rparr>"
  let ?l = "map (\<lambda>i. (i, the (produto_findUnique_id (i_produtoId i) db)))
                        (itens_do_carrinho (c_id c) db)"
  let ?ca = "\<lparr>ci_id = c_id c, ci_usuarioId = c_usuarioId c, ci_itens = ?l\<rparr>"
  have o: "obterOuCriarCarrinho uc db = (Inr ?ca, db)"
    using ok c by (rule obterOuCriarCarrinho_existente)
  from i have iin: "i \<in> set (itens db)" "i_produtoId i = pid" "i_carrinhoId i = c_id c"
    by (auto dest: find_Some_set)
  have "find (\<lambda>i. i_produtoId i = pid) (itens_do_carrinho (c_id c) db) = Some i"
    using i by (simp add: itens_do_carrinho_def find_filtro)
  then have fl: "find (\<lambda>x. i_produtoId (fst x) = pid) ?l =
      Some (i, the (produto_findUnique_id (i_produtoId i) db))"
    using find_map_par [of "\<lambda>i. i_produtoId i = pid"
        "\<lambda>i. the (produto_findUnique_id (i_produtoId i) db)" "itens_do_carrinho (c_id c) db"]
    by simp
  have u: "produto_update pid (\<lambda>p. p\<lparr>p_estoque := p_estoque p + i_quantidade i\<rparr>) db = Inr (?p, ?db2)"
    using ok p r by (simp add: produto_update_sucesso)
  with ok have ok2: "esquema_ok ?db2" by (rule produto_update_esquema_ok) simp
  have c2: "carrinho_findUnique_id (c_id c) ?db2 = Some c"
    using carrinho_por_id [OF ok c] by (simp add: carrinho_findUnique_id_def)
  have "find (\<lambda>j. i_id j = i_id i \<and> i_carrinhoId j = c_id c) (itens ?db2) \<noteq> None"
    using iin by (auto simp: find_None_iff)
  from carrinho_update_delete_sucesso [OF ok2 c2 this]
  obtain rr where "carrinho_update_delete (c_id c) (i_id i) ?db2 =
      Inr (rr, ?db2\<lparr>itens := filter (\<lambda>j. i_id j \<noteq> i_id i) (itens ?db2)\<rparr>)" by blast
  with o fl u show ?thesis
    by (simp add: removerItem_def transaction_def)
qed

lemma adicionarItem_sem_carrinho:
  assumes "esquema_ok db" and "carrinho_findUnique_usuarioId usuarioId db = None"
    and "carrinho_findUnique_id uc db = None"
  shows "adicionarItem uc ui d db =
           adicionarItem uc ui d
             (db\<lparr>carrinhos := carrinhos db @ [\<lparr>c_id = uc, c_usuarioId = usuarioId\<rparr>]\<rparr>)"
    and "esquema_ok (db\<lparr>carrinhos := carrinhos db @ [\<lparr>c_id = uc, c_usuarioId = usuarioId\<rparr>]\<rparr>)"
    and "carrinho_findUnique_usuarioId usuarioId
           (db\<lparr>carrinhos := carrinhos db @ [\<lparr>c_id = uc, c_usuarioId = usuarioId\<rparr>]\<rparr>) =
         Some \<lparr>c_id = uc, c_usuarioId = usuarioId\<rparr>"
    and "itens_do_carrinho uc
           (db\<lparr>carrinhos := carrinhos db @ [\<lparr>c_id = uc, c_usuarioId = usuarioId\<rparr>]\<rparr>) = []"
proof -
  let ?c = "\<lparr>c_id = uc, c_usuarioId = usuarioId\<rparr>"
  let ?db = "db\<lparr>carrinhos := carrinhos db @ [?c]\<rparr>"
  have o: "obterOuCriarCarrinho uc db =
      (Inr \<lparr>ci_id = uc, ci_usuarioId = usuarioId, ci_itens = []\<rparr>, ?db)"
    using assms by (rule obterOuCriarCarrinho_novo)
  with assms(1) show ok: "esquema_ok ?db" by (rule obterOuCriarCarrinho_esquema_ok)
  show a: "carrinho_findUnique_usuarioId usuarioId ?db = Some ?c"
    using assms(2) by (simp add: carrinho_findUnique_usuarioId_def find_anexar)
  have "uc \<notin> c_id ` set (carrinhos db)"
    using assms(3) by (simp add: carrinho_findUnique_id_def find_key_None)
  then show b: "itens_do_carrinho uc ?db = []"
    using assms(1) by (auto simp: itens_do_carrinho_def esquema_ok_iff filter_empty_conv)
  have "obterOuCriarCarrinho uc ?db =
      (Inr \<lparr>ci_id = uc, ci_usuarioId = usuarioId, ci_itens = []\<rparr>, ?db)"
    using obterOuCriarCarrinho_existente [OF ok a, of uc] b by simp
  with o show "adicionarItem uc ui d db = adicionarItem uc ui d ?db"
    by (simp add: adicionarItem_def adicionarItem_verificar_def produto_findUnique_id_def)
qed

lemma ida_e_volta_com_carrinho:
  assumes ok: "esquema_ok db" and c: "carrinho_findUnique_usuarioId usuarioId db = Some c"
    and p: "produto_findUnique_id pid db = Some p" and q: "0 \<le> q" "q \<le> p_estoque p"
    and n: "find (\<lambda>i. i_produtoId i = pid \<and> i_carrinhoId i = c_id c) (itens db) = None"
    and f: "find (\<lambda>j. i_id j = ui) (itens db) = None"
  shows "\<exists>x1 db1 x2.
     adicionarItem uc ui \<lparr>ai_produtoId = pid, ai_quantidade = q\<rparr> db = (Inr x1, db1) \<and>
     carrinhos db1 = carrinhos db \<and>
     estoque_de pid db1 = Some (p_estoque p - q) \<and>
     find (\<lambda>i. i_produtoId i = pid \<and> i_carrinhoId i = c_id c) (itens db1) =
       Some \<lparr>i_id = ui, i_quantidade = q, i_produtoId = pid, i_carrinhoId = c_id c\<rparr> \<and>
     removerItem uc2 pid db1 = (Inr x2, db)"
proof -
  let ?d = "\<lparr>ai_produtoId = pid, ai_quantidade = q\<rparr>"
  let ?p = "p\<lparr>p_estoque := p_estoque p - q\<rparr>"
  let ?i = "\<lparr>i_id = ui, i_quantidade = q, i_produtoId = pid, i_carrinhoId = c_id c\<rparr>"
  let ?db1 = "db\<lparr>produtos := map (\<lambda>r. if p_id r = pid then ?p else r) (produtos db),
                 itens := itens db @ [?i]\<rparr>"
  from adicionarItem_com_carrinho(1) [OF ok c p q n f] obtain x1 where
    a: "adicionarItem uc ui ?d db = (Inr x1, ?db1)" by blast
  have "esquema_ok (snd (adicionarItem uc ui ?d db))" using ok by (rule adicionarItem_esquema_ok)
  with a have ok1: "esquema_ok ?db1" by simp
  from p have pin: "p \<in> set (produtos db)" "p_id p = pid"
    by (auto simp: produto_findUnique_id_def dest: find_Some_set)
  have p1: "produto_findUnique_id pid ?db1 = Some ?p"
    using p pin(2) by (simp add: produto_findUnique_id_def find_replace)
  have c1: "carrinho_findUnique_usuarioId usuarioId ?db1 = Some c"
    using c by (simp add: carrinho_findUnique_usuarioId_def)
  have i1: "find (\<lambda>i. i_produtoId i = pid \<and> i_carrinhoId i = c_id c) (itens ?db1) = Some ?i"
    using n by (simp add: find_anexar)
  from ok pin(1) have "int4 (p_estoque p)" by (simp add: esquema_ok_iff)
  then have r: "int4 (p_estoque ?p + i_quantidade ?i)" by simp
  from removerItem_com_carrinho [OF ok1 c1 i1 p1 r, of uc2] obtain x2 where
    b: "removerItem uc2 pid ?db1 =
      (Inr x2, ?db1\<lparr>produtos := map (\<lambda>r. if p_id r = pid
                                        then ?p\<lparr>p_estoque := p_estoque ?p + i_quantidade ?i\<rparr>
                                        else r) (produtos ?db1),
                itens := filter (\<lambda>j. i_id j \<noteq> i_id ?i) (itens ?db1)\<rparr>)" by blast
  have same: "?p\<lparr>p_estoque := p_estoque ?p + i_quantidade ?i\<rparr> = p" by simp
  have "map (\<lambda>r. if p_id r = pid then p else r)
          (map (\<lambda>r. if p_id r = pid then ?p else r) (produtos db)) =
        map (\<lambda>r. if p_id r = pid then p else r) (produtos db)"
    using pin(2) by (intro replace_twice) simp
  also have "\<dots> = produtos db"
    using ok p by (intro replace_same) (simp_all add: esquema_ok_iff produto_findUnique_id_def)
  finally have ps: "map (\<lambda>r. if p_id r = pid then p else r) (produtos ?db1) = produtos db"
    by simp
  have "\<forall>j\<in>set (itens db). i_id j \<noteq> ui" using f by (auto simp: find_None_iff)
  then have ls: "filter (\<lambda>j. i_id j \<noteq> i_id ?i) (itens ?db1) = itens db"
    by (simp add: filter_id_conv)
  have "removerItem uc2 pid ?db1 = (Inr x2, db)"
    unfolding b same ps ls by simp
  moreover have "carrinhos ?db1 = carrinhos db" by simp
  moreover have "estoque_de pid ?db1 = Some (p_estoque p - q)"
    using p1 by (simp add: estoque_de_def)
  ultimately show ?thesis
    using a i1 by (intro exI [of _ x1] exI [of _ ?db1] exI [of _ x2] conjI)
qed

subsection \<open>Quantities alone\<close>





subsection \<open>Stock and reserved units\<close>




















section \<open>Concurrent additions\<close>

text \<open>
  C2. The claim: of two concurrent AddItem calls for the same product with
  \<open>2 * quantidade > estoque\<close>, exactly one succeeds, the other fails with
  InsufficientStock, and the final stock reflects the winner's decrement only.
  The handler checks the stock outside its transaction. With the Widget at 5
  units and two calls for 3 units, the schedule that runs both checks before
  either transaction lets both calls succeed: the stock ends at \<open>-1\<close> and the
  line holds 6 units. Served one after the other, the second call fails with the
  insufficient-stock message and the stock stays at 2.
\<close>

theorem adicionarItem_intercalado_excede_estoque:
  "intercalar_adicionarItem ''c2'' ''i1'' tres ''c3'' ''i2'' tres banco_widget =
     ((Inr (msg_item_adicionado,
            \<lparr>cf_id = ''c1'', cf_usuarioId = ''usuario-123'',
              cf_itens = [\<lparr>f_produtoId = ''p1'', f_nome = ''Widget'', f_quantidade = 3,
                           f_precoUnitario = 10, f_totalItem = 30\<rparr>],
              cf_total = 30\<rparr>),
       Inr (msg_item_adicionado,
            \<lparr>cf_id = ''c1'', cf_usuarioId = ''usuario-123'',
              cf_itens = [\<lparr>f_produtoId = ''p1'', f_nome = ''Widget'', f_quantidade = 6,
                           f_precoUnitario = 10, f_totalItem = 60\<rparr>],
              cf_total = 60\<rparr>)),
      \<lparr>produtos = [\<lparr>p_id = ''p1'', p_nome = ''Widget'', p_preco = 10, p_estoque = - 1\<rparr>],
        carrinhos = [carrinho_c1],
        itens = [\<lparr>i_id = ''i1'', i_quantidade = 6, i_produtoId = ''p1'',
                  i_carrinhoId = ''c1''\<rparr>]\<rparr>)
   \<and> adicionarItem ''c3'' ''i2'' tres (snd (adicionarItem ''c2'' ''i1'' tres banco_widget)) =
     (Inl (BadRequestException
            (msg_estoque_insuficiente
               \<lparr>p_id = ''p1'', p_nome = ''Widget'', p_preco = 10, p_estoque = 2\<rparr>)),
      \<lparr>produtos = [\<lparr>p_id = ''p1'', p_nome = ''Widget'', p_preco = 10, p_estoque = 2\<rparr>],
        carrinhos = [carrinho_c1],
        itens = [\<lparr>i_id = ''i1'', i_quantidade = 3, i_produtoId = ''p1'',
                  i_carrinhoId = ''c1''\<rparr>]\<rparr>)"
  by code_simp

section \<open>Deleting a product\<close>

text \<open>
  C5, as the spec states it: delete fails with NotFound when the product is absent
  and otherwise removes the product, also while cart lines reference it. The
  second half fails: with a line of 3 Widgets in the cart, deleting the Widget is
  refused by the foreign key of the line, and the product is still there.
\<close>

theorem removerProduto_referenciado_falha:
  "removerProduto ''p1'' banco_reservado =
     (Inl (PrismaErro ForeignKeyConstraintFailed), banco_reservado)
   \<and> produto_findUnique_id ''p1'' (snd (removerProduto ''p1'' banco_reservado)) =
       Some \<lparr>p_id = ''p1'', p_nome = ''Widget'', p_preco = 10, p_estoque = 2\<rparr>"
  by code_simp

text \<open>
  C5, amended. \<^verbatim>\<open>removerProduto\<close> fails with NotFound when the product is absent.
  When the product exists and no cart line references it, the product is removed
  and carts and lines are untouched. When a cart line references it, the store
  refuses the delete (\<^verbatim>\<open>ON DELETE RESTRICT\<close>): the call fails with the store's
  error and the database is unchanged.
\<close>

theorem removerProduto_contrato:
  "(produto_findUnique_id pid db = None \<longrightarrow>
      removerProduto pid db = (Inl (NotFoundException (msg_produto_nao_encontrado pid)), db)) \<and>
   (produto_findUnique_id pid db \<noteq> None \<and> itemCarrinho_findFirst_produtoId pid db = None \<longrightarrow>
      removerProduto pid db =
        (Inr (), db\<lparr>produtos := filter (\<lambda>q. p_id q \<noteq> pid) (produtos db)\<rparr>) \<and>
      produto_findUnique_id pid (snd (removerProduto pid db)) = None \<and>
      itens (snd (removerProduto pid db)) = itens db \<and>
      carrinhos (snd (removerProduto pid db)) = carrinhos db) \<and>
   (produto_findUnique_id pid db \<noteq> None \<and> itemCarrinho_findFirst_produtoId pid db \<noteq> None \<longrightarrow>
      removerProduto pid db = (Inl (PrismaErro ForeignKeyConstraintFailed), db))"
  by (auto simp: removerProduto_def buscarProdutoPorId_def produto_delete_def
      produto_findUnique_id_def find_filtrada split: option.splits)

theorem removerProduto_contrato_witness:
  "produto_findUnique_id ''p1'' banco_widget \<noteq> None \<and>
   itemCarrinho_findFirst_produtoId ''p1'' banco_widget = None \<and>
   removerProduto ''p1'' banco_widget =
     (Inr (), \<lparr>produtos = [], carrinhos = [carrinho_c1], itens = []\<rparr>) \<and>
   produto_findUnique_id ''p1'' (snd (removerProduto ''p1'' banco_widget)) = None \<and>
   produto_findUnique_id ''p9'' banco_widget = None \<and>
   removerProduto ''p9'' banco_widget =
     (Inl (NotFoundException (msg_produto_nao_encontrado ''p9'')), banco_widget)"
  using removerProduto_contrato [of "''p1''" banco_widget]
    removerProduto_contrato [of "''p9''" banco_widget]
  by (simp add: produto_findUnique_id_def itemCarrinho_findFirst_produtoId_def banco_widget_def
      widget_def)

section \<open>Adding an item that cannot be served\<close>

text \<open>
  C6. When the product exists and its stock is below the requested quantity,
  \<^verbatim>\<open>adicionarItem\<close> fails with the insufficient-stock exception (a
  \<^verbatim>\<open>BadRequestException\<close>); its message contains the product's name and the
  decimal text of the available stock; and the failed call leaves every product
  (so the stock) and every cart line as they were. \<open>uc\<close> is the fresh id a
  cart would get if the owner had none.
\<close>

theorem adicionarItem_estoque_insuficiente:
  assumes "esquema_ok db" and "carrinho_findUnique_id uc db = None"
    and "produto_findUnique_id (ai_produtoId d) db = Some p"
    and "p_estoque p < ai_quantidade d"
  shows "fst (adicionarItem uc ui d db) =
           Inl (BadRequestException
                 (''Estoque insuficiente para '' @ aspas @ p_nome p @ aspas @ ''. Dispon''
                    @ i_agudo @ ''vel: '' @ string_of_int (p_estoque p) @ ''.'')) \<and>
         sublist (p_nome p) (msg_estoque_insuficiente p) \<and>
         sublist (string_of_int (p_estoque p)) (msg_estoque_insuficiente p) \<and>
         produtos (snd (adicionarItem uc ui d db)) = produtos db \<and>
         itens (snd (adicionarItem uc ui d db)) = itens db \<and>
         estoque_de (ai_produtoId d) (snd (adicionarItem uc ui d db)) = Some (p_estoque p)"
proof -
  from obterOuCriarCarrinho_sucesso [OF assms(1,2)] obtain c db1 where
    o: "obterOuCriarCarrinho uc db = (Inr c, db1)" by blast
  from obterOuCriarCarrinho_tabelas [OF o] have t: "produtos db1 = produtos db" "itens db1 = itens db" .
  from assms(3) t(1) have f: "produto_findUnique_id (ai_produtoId d) db1 = Some p"
    by (simp add: produto_findUnique_id_def)
  have r: "adicionarItem uc ui d db =
      (Inl (BadRequestException (msg_estoque_insuficiente p)), db1)"
    using o f assms(4) by (simp add: adicionarItem_def adicionarItem_verificar_def)
  have n: "msg_estoque_insuficiente p =
      (''Estoque insuficiente para '' @ aspas) @ p_nome p @
      (aspas @ ''. Dispon'' @ i_agudo @ ''vel: '' @ string_of_int (p_estoque p) @ ''.'')"
    by (simp add: msg_estoque_insuficiente_def)
  have e: "msg_estoque_insuficiente p =
      (''Estoque insuficiente para '' @ aspas @ p_nome p @ aspas @ ''. Dispon'' @ i_agudo @ ''vel: '')
      @ string_of_int (p_estoque p) @ ''.''"
    by (simp add: msg_estoque_insuficiente_def)
  have s1: "sublist (p_nome p) (msg_estoque_insuficiente p)"
    unfolding n by (rule sublist_appendI)
  have s2: "sublist (string_of_int (p_estoque p)) (msg_estoque_insuficiente p)"
    unfolding e by (rule sublist_appendI)
  show ?thesis
    using r s1 s2 t assms(3)
    by (simp add: estoque_de_def produto_findUnique_id_def msg_estoque_insuficiente_def)
qed

text \<open>
  The second AddItem of scenario B: the Widget has 2 units left and 3 are asked
  for. The call fails, the message names the Widget and the 2 units, and the
  stock stays at 2.
\<close>

theorem adicionarItem_estoque_insuficiente_witness:
  "esquema_ok banco_reservado \<and>
   carrinho_findUnique_id ''c2'' banco_reservado = None \<and>
   fst (adicionarItem ''c2'' ''i2'' tres banco_reservado) =
     Inl (BadRequestException
           (''Estoque insuficiente para '' @ aspas @ ''Widget'' @ aspas @ ''. Dispon''
              @ i_agudo @ ''vel: 2.'')) \<and>
   snd (adicionarItem ''c2'' ''i2'' tres banco_reservado) = banco_reservado \<and>
   estoque_de ''p1'' (snd (adicionarItem ''c2'' ''i2'' tres banco_reservado)) = Some 2"
proof -
  have ok: "esquema_ok banco_reservado" by code_simp
  have u: "carrinho_findUnique_id ''c2'' banco_reservado = None" by code_simp
  have p: "produto_findUnique_id (ai_produtoId tres) banco_reservado =
      Some \<lparr>p_id = ''p1'', p_nome = ''Widget'', p_preco = 10, p_estoque = 2\<rparr>" by code_simp
  have q: "p_estoque \<lparr>p_id = ''p1'', p_nome = ''Widget'', p_preco = 10, p_estoque = 2\<rparr>
      < ai_quantidade tres" by code_simp
  have s: "string_of_int 2 = ''2''" by code_simp
  have k: "snd (adicionarItem ''c2'' ''i2'' tres banco_reservado) = banco_reservado" by code_simp
  show ?thesis
    using adicionarItem_estoque_insuficiente [where ui = "''i2''", OF ok u p q] ok u s k
    by (simp add: tres_def)
qed

section \<open>The cart a failed addition leaves behind\<close>

text \<open>
  C10. When the owner has no cart, \<^verbatim>\<open>adicionarItem\<close> creates one (with the fresh
  id \<open>uc\<close>) before it looks at the product. A call that then fails with NotFound
  (unknown product) or with insufficient stock returns the database with that
  new cart in it: the owner's cart exists afterwards and it has no lines.
  Nothing else differs from the database before the call.
\<close>

theorem adicionarItem_falha_deixa_carrinho:
  assumes "esquema_ok db" and "carrinho_findUnique_usuarioId usuarioId db = None"
    and "carrinho_findUnique_id uc db = None"
  shows "(produto_findUnique_id (ai_produtoId d) db = None \<longrightarrow>
            adicionarItem uc ui d db =
              (Inl (NotFoundException (msg_produto_nao_encontrado (ai_produtoId d))),
               db\<lparr>carrinhos := carrinhos db @ [\<lparr>c_id = uc, c_usuarioId = usuarioId\<rparr>]\<rparr>)) \<and>
         (\<forall>p. produto_findUnique_id (ai_produtoId d) db = Some p \<and>
              p_estoque p < ai_quantidade d \<longrightarrow>
            adicionarItem uc ui d db =
              (Inl (BadRequestException (msg_estoque_insuficiente p)),
               db\<lparr>carrinhos := carrinhos db @ [\<lparr>c_id = uc, c_usuarioId = usuarioId\<rparr>]\<rparr>)) \<and>
         carrinho_findUnique_usuarioId usuarioId
           (db\<lparr>carrinhos := carrinhos db @ [\<lparr>c_id = uc, c_usuarioId = usuarioId\<rparr>]\<rparr>) =
           Some \<lparr>c_id = uc, c_usuarioId = usuarioId\<rparr> \<and>
         itens_do_carrinho uc
           (db\<lparr>carrinhos := carrinhos db @ [\<lparr>c_id = uc, c_usuarioId = usuarioId\<rparr>]\<rparr>) = []"
proof -
  let ?db = "db\<lparr>carrinhos := carrinhos db @ [\<lparr>c_id = uc, c_usuarioId = usuarioId\<rparr>]\<rparr>"
  have o: "obterOuCriarCarrinho uc db =
      (Inr \<lparr>ci_id = uc, ci_usuarioId = usuarioId, ci_itens = []\<rparr>, ?db)"
    using assms by (rule obterOuCriarCarrinho_novo)
  have f: "produto_findUnique_id pid ?db = produto_findUnique_id pid db" for pid
    by (simp add: produto_findUnique_id_def)
  have a: "carrinho_findUnique_usuarioId usuarioId ?db = Some \<lparr>c_id = uc, c_usuarioId = usuarioId\<rparr>"
    using assms(2) by (simp add: carrinho_findUnique_usuarioId_def find_anexar)
  have "uc \<notin> c_id ` set (carrinhos db)"
    using assms(3) by (simp add: carrinho_findUnique_id_def find_key_None)
  then have b: "itens_do_carrinho uc ?db = []"
    using assms(1) by (auto simp: itens_do_carrinho_def esquema_ok_iff filter_empty_conv)
  show ?thesis
    using o a b by (simp add: adicionarItem_def adicionarItem_verificar_def f)
qed

text \<open>
  On the empty database a request for an unknown product fails with NotFound
  and leaves the owner's empty cart.
\<close>

theorem adicionarItem_falha_deixa_carrinho_witness:
  "esquema_ok banco_vazio \<and>
   carrinho_findUnique_usuarioId usuarioId banco_vazio = None \<and>
   carrinho_findUnique_id ''c1'' banco_vazio = None \<and>
   produto_findUnique_id (ai_produtoId tres) banco_vazio = None \<and>
   adicionarItem ''c1'' ''i1'' tres banco_vazio =
     (Inl (NotFoundException (msg_produto_nao_encontrado ''p1'')),
      \<lparr>produtos = [], carrinhos = [carrinho_c1], itens = []\<rparr>)"
proof -
  have ok: "esquema_ok banco_vazio" by code_simp
  have n: "carrinho_findUnique_usuarioId usuarioId banco_vazio = None" by code_simp
  have u: "carrinho_findUnique_id ''c1'' banco_vazio = None" by code_simp
  have p: "produto_findUnique_id (ai_produtoId tres) banco_vazio = None" by code_simp
  show ?thesis
    using adicionarItem_falha_deixa_carrinho [where d = tres and ui = "''i1''", OF ok n u] ok n u p
    by (simp add: tres_def banco_vazio_def carrinho_c1_def usuarioId_def)
qed

section \<open>Updating a product\<close>



section \<open>The view of the cart\<close>



section \<open>Adding and then removing\<close>

text \<open>
  C8. Take a database that satisfies the schema, a product \<open>p\<close> that the owner's
  cart has no line for, a quantity between 1 and the stock of \<open>p\<close>, and fresh
  ids for the rows that may be created. Then \<^verbatim>\<open>adicionarItem\<close> succeeds, takes the
  quantity out of the stock and leaves the line in the cart; \<^verbatim>\<open>removerItem\<close>
  for the same product then succeeds too, and after it the products (so the
  stock of \<open>p\<close>) and the cart lines are exactly those before the addition: the
  line is gone.
\<close>

theorem adicionar_depois_remover:
  assumes "esquema_ok db" and "carrinho_findUnique_id uc db = None"
    and "find (\<lambda>j. i_id j = ui) (itens db) = None"
    and "produto_findUnique_id pid db = Some p" and "1 \<le> q" and "q \<le> p_estoque p"
    and "linha_do_carrinho pid db = None"
  shows "\<exists>x1 db1 x2 db2.
     adicionarItem uc ui \<lparr>ai_produtoId = pid, ai_quantidade = q\<rparr> db = (Inr x1, db1) \<and>
     estoque_de pid db1 = Some (p_estoque p - q) \<and>
     map_option i_quantidade (linha_do_carrinho pid db1) = Some q \<and>
     removerItem uc2 pid db1 = (Inr x2, db2) \<and>
     produtos db2 = produtos db \<and> itens db2 = itens db \<and>
     estoque_de pid db2 = Some (p_estoque p) \<and>
     linha_do_carrinho pid db2 = None"
proof (cases "carrinho_findUnique_usuarioId usuarioId db")
  case (Some c)
  with assms(7) have n: "find (\<lambda>i. i_produtoId i = pid \<and> i_carrinhoId i = c_id c) (itens db) = None"
    by (simp add: linha_do_carrinho_def)
  from assms(5) have q0: "0 \<le> q" by simp
  from ida_e_volta_com_carrinho [OF assms(1) Some assms(4) q0 assms(6) n assms(3), of uc uc2]
  obtain x1 db1 x2 where
    r: "adicionarItem uc ui \<lparr>ai_produtoId = pid, ai_quantidade = q\<rparr> db = (Inr x1, db1)"
      "carrinhos db1 = carrinhos db"
      "estoque_de pid db1 = Some (p_estoque p - q)"
      "find (\<lambda>i. i_produtoId i = pid \<and> i_carrinhoId i = c_id c) (itens db1) =
        Some \<lparr>i_id = ui, i_quantidade = q, i_produtoId = pid, i_carrinhoId = c_id c\<rparr>"
      "removerItem uc2 pid db1 = (Inr x2, db)" by blast
  from r(2) Some have "carrinho_findUnique_usuarioId usuarioId db1 = Some c"
    by (simp add: carrinho_findUnique_usuarioId_def)
  with r(4) have l: "map_option i_quantidade (linha_do_carrinho pid db1) = Some q"
    by (simp add: linha_do_carrinho_def)
  have e: "estoque_de pid db = Some (p_estoque p)"
    using assms(4) by (simp add: estoque_de_def)
  from r(1,3,5) l e assms(7) show ?thesis
    by (intro exI [of _ x1] exI [of _ db1] exI [of _ x2] exI [of _ db]) simp
next
  case None
  let ?c = "\<lparr>c_id = uc, c_usuarioId = usuarioId\<rparr>"
  let ?db = "db\<lparr>carrinhos := carrinhos db @ [?c]\<rparr>"
  note k = adicionarItem_sem_carrinho [OF assms(1) None assms(2)]
  have n: "find (\<lambda>i. i_produtoId i = pid \<and> i_carrinhoId i = c_id ?c) (itens ?db) = None"
    using k(4) find_filtro [of "\<lambda>i. i_produtoId i = pid" "\<lambda>i. i_carrinhoId i = uc" "itens db"]
    by (simp add: itens_do_carrinho_def)
  have p: "produto_findUnique_id pid ?db = Some p"
    using assms(4) by (simp add: produto_findUnique_id_def)
  have f: "find (\<lambda>j. i_id j = ui) (itens ?db) = None" using assms(3) by simp
  from assms(5) have q0: "0 \<le> q" by simp
  from ida_e_volta_com_carrinho [OF k(2) k(3) p q0 assms(6) n f, of uc uc2]
  obtain x1 db1 x2 where
    r: "adicionarItem uc ui \<lparr>ai_produtoId = pid, ai_quantidade = q\<rparr> ?db = (Inr x1, db1)"
      "carrinhos db1 = carrinhos ?db"
      "estoque_de pid db1 = Some (p_estoque p - q)"
      "find (\<lambda>i. i_produtoId i = pid \<and> i_carrinhoId i = c_id ?c) (itens db1) =
        Some \<lparr>i_id = ui, i_quantidade = q, i_produtoId = pid, i_carrinhoId = c_id ?c\<rparr>"
      "removerItem uc2 pid db1 = (Inr x2, ?db)" by blast
  from r(2) k(3) have "carrinho_findUnique_usuarioId usuarioId db1 = Some ?c"
    by (simp add: carrinho_findUnique_usuarioId_def)
  with r(4) have l: "map_option i_quantidade (linha_do_carrinho pid db1) = Some q"
    by (simp add: linha_do_carrinho_def)
  have l2: "linha_do_carrinho pid ?db = None"
    using k(3) n by (simp add: linha_do_carrinho_def)
  have e2: "estoque_de pid ?db = Some (p_estoque p)"
    using p by (simp add: estoque_de_def)
  from r(1) k(1) have "adicionarItem uc ui \<lparr>ai_produtoId = pid, ai_quantidade = q\<rparr> db = (Inr x1, db1)"
    by simp
  with r(3,5) l l2 e2 show ?thesis
    by (intro exI [of _ x1] exI [of _ db1] exI [of _ x2] exI [of _ ?db]) simp
qed

text \<open>
  The round trip of the spec: 3 Widgets go into the cart and the stock drops
  from 5 to 2; removing the Widget gives the database before the addition.
\<close>

theorem adicionar_depois_remover_witness:
  "esquema_ok banco_widget \<and> carrinho_findUnique_id ''c2'' banco_widget = None \<and>
   produto_findUnique_id ''p1'' banco_widget = Some widget \<and>
   linha_do_carrinho ''p1'' banco_widget = None \<and>
   snd (adicionarItem ''c2'' ''i1'' \<lparr>ai_produtoId = ''p1'', ai_quantidade = 3\<rparr> banco_widget) =
     banco_reservado \<and>
   snd (removerItem ''c3'' ''p1'' banco_reservado) = banco_widget \<and>
   estoque_de ''p1'' banco_reservado = Some 2 \<and> estoque_de ''p1'' banco_widget = Some 5"
proof -
  have ok: "esquema_ok banco_widget" by code_simp
  have u: "carrinho_findUnique_id ''c2'' banco_widget = None" by code_simp
  have f: "find (\<lambda>j. i_id j = ''i1'') (itens banco_widget) = None" by code_simp
  have p: "produto_findUnique_id ''p1'' banco_widget = Some widget" by code_simp
  have q: "(1::int) \<le> 3" "3 \<le> p_estoque widget" by (simp_all add: widget_def)
  have l: "linha_do_carrinho ''p1'' banco_widget = None" by code_simp
  from adicionar_depois_remover [OF ok u f p q l, of "''c3''"] obtain x1 db1 x2 db2 where
    "adicionarItem ''c2'' ''i1'' \<lparr>ai_produtoId = ''p1'', ai_quantidade = 3\<rparr> banco_widget =
       (Inr x1, db1)" by blast
  moreover have "snd (adicionarItem ''c2'' ''i1'' \<lparr>ai_produtoId = ''p1'', ai_quantidade = 3\<rparr>
      banco_widget) = banco_reservado" by code_simp
  moreover have "snd (removerItem ''c3'' ''p1'' banco_reservado) = banco_widget" by code_simp
  moreover have "estoque_de ''p1'' banco_reservado = Some 2" by code_simp
  moreover have "estoque_de ''p1'' banco_widget = Some 5" by code_simp
  ultimately show ?thesis using ok u p l by simp
qed

section \<open>Stock is never negative\<close>



section \<open>One line per product and cart\<close>



section \<open>Conservation of stock\<close>




end
